theory Spec2Isabelle
  imports Main "HOL-Library.Word"
begin

unbundle bit_operations_syntax

section \<open>Data model\<close>

text \<open>
  Shallow embedding of the block production and consensus core of the Ring node
  (\<^verbatim>\<open>src/pow.cpp\<close>, \<^verbatim>\<open>src/miner.cpp\<close>).

  Machine integers: \<^verbatim>\<open>uint32_t\<close> and \<^verbatim>\<open>unsigned int\<close> are \<open>32 word\<close>,
  \<^verbatim>\<open>uint256\<close> and \<^verbatim>\<open>arith_uint256\<close> are \<open>256 word\<close> (their \<open>+\<close>, \<open>*\<close> wrap,
  \<open>div\<close> is the unsigned quotient). Signed quantities (\<^verbatim>\<open>int\<close>, \<^verbatim>\<open>int64_t\<close>,
  \<^verbatim>\<open>CAmount\<close>) are \<open>int\<close>; where the source narrows or converts them, or divides them,
  the conversion, the truncating quotient and the undefined cases are written out.
\<close>

type_synonym byte = "8 word"

type_synonym uint32 = "32 word"

type_synonym uint256 = "256 word"

type_synonym arith_uint256 = "256 word"

type_synonym CScript = "byte list"

type_synonym CAmount = int

type_synonym cstring = "byte list"

text \<open>
  What ends a call without a return value: undefined behaviour of the C++ (a null or
  out-of-range access, a signed overflow, an integer division by zero), a failed
  \<^verbatim>\<open>assert\<close>, and the two exceptions the code can raise.
\<close>

datatype fault =
    NullDeref
  | OutOfRange
  | AssertionFailed
  | DivisionByZero
  | SignedOverflow
  | uint_error
  | runtime_error

definition in_int32 :: "int \<Rightarrow> bool" where
  "in_int32 x \<longleftrightarrow> - (2 ^ 31) \<le> x \<and> x < 2 ^ 31"

definition in_int64 :: "int \<Rightarrow> bool" where
  "in_int64 x \<longleftrightarrow> - (2 ^ 63) \<le> x \<and> x < 2 ^ 63"

text \<open>The quotient of C++ on signed integers rounds towards zero.\<close>

definition cdiv :: "int \<Rightarrow> int \<Rightarrow> int" where
  "cdiv a b = sgn a * sgn b * (\<bar>a\<bar> div \<bar>b\<bar>)"

record Params =
  powLimit :: uint256
  powLimitInitialDistribution :: uint256
  powLimitHive :: uint256
  lastInitialDistributionHeight :: int
  fPowAllowMinDifficultyBlocks :: bool
  nPowTargetSpacing :: int
  hiveDifficultyWindow :: int
  minHiveCheckBlock :: int
  hiveBlockSpacingTarget :: int
  slowStartBlocks :: int
  maxConsecutiveHiveBlocks :: int
  dwarfCreationAddress :: string
  hiveCommunityAddress :: string
  communityContribFactor :: int
  dwarfGestationBlocks :: int
  dwarfLifespanBlocks :: int
  dwarfCost :: CAmount
  hiveNonceMarker :: uint32
  popNonceMarker :: uint32

text \<open>
  A \<^verbatim>\<open>CBlockIndex\<close> with the fields the two files read. A pointer
  \<^verbatim>\<open>CBlockIndex*\<close> is the list of the block and its ancestors, the block itself first:
  \<^verbatim>\<open>p->pprev\<close> is the tail, \<^verbatim>\<open>nullptr\<close> is \<open>[]\<close>.
\<close>

record CBlockIndex =
  nHeight :: int
  nTime :: uint32
  nBits :: uint32
  nNonce :: uint32
  phashBlock :: uint256

type_synonym pindex = "CBlockIndex list"

definition GetBlockTime :: "CBlockIndex \<Rightarrow> int" where
  "GetBlockTime b = uint (nTime b)"

text \<open>
  Modelled from the spec: \<^verbatim>\<open>CBlockHeader::IsHiveMined\<close> and \<^verbatim>\<open>IsPopMined\<close> are
  declared in \<^verbatim>\<open>primitives/block.h\<close>; by the spec's header nonce marker, a Hive block
  carries \<^verbatim>\<open>hiveNonceMarker\<close> in \<^verbatim>\<open>nNonce\<close> and a Pop block \<^verbatim>\<open>popNonceMarker\<close>.
\<close>

definition IsHiveMined :: "CBlockIndex \<Rightarrow> Params \<Rightarrow> bool" where
  "IsHiveMined b P \<longleftrightarrow> nNonce b = hiveNonceMarker P"

definition IsPopMined :: "CBlockIndex \<Rightarrow> Params \<Rightarrow> bool" where
  "IsPopMined b P \<longleftrightarrow> nNonce b = popNonceMarker P"

text \<open>A block header under construction (\<^verbatim>\<open>CBlockHeader\<close>).\<close>

record CBlockHeader =
  hdr_nVersion :: int
  hdr_hashPrevBlock :: uint256
  hdr_hashMerkleRoot :: uint256
  hdr_nTime :: uint32
  hdr_nBits :: uint32
  hdr_nNonce :: uint32

type_synonym COutPoint = "uint256 \<times> uint32"

type_synonym CKeyID = "160 word"

type_synonym CPubKey = "byte list"

record CTxOut =
  nValue :: CAmount
  scriptPubKey :: CScript

text \<open>The empty prevout of a coinbase input is \<open>None\<close>.\<close>

record CTxIn =
  prevout :: "COutPoint option"
  scriptSig :: CScript

record CTransaction =
  vin :: "CTxIn list"
  vout :: "CTxOut list"

text \<open>\<^verbatim>\<open>class CBlock : public CBlockHeader\<close>.\<close>

record CBlock = CBlockHeader +
  vtx :: "CTransaction list"

record Coin =
  out :: CTxOut
  coin_nHeight :: uint32

datatype CTxDestination = CNoDestination | KeyID CKeyID | OtherDestination nat

section \<open>Difficulty retargeting\<close>

text \<open>
  \<^verbatim>\<open>arith_uint256\<close> is declared in \<^verbatim>\<open>arith_uint256.h\<close>, not among the sources. Its
  values are the 256-bit words; \<open>SetCompact\<close> and \<open>GetCompact\<close>, the compact encoding
  of a target, are parameters of the functions below. An \<^verbatim>\<open>int\<close> or \<^verbatim>\<open>int64_t\<close>
  operand of \<^verbatim>\<open>/\<close> or \<^verbatim>\<open>/=\<close> reaches the 256-bit division through \<^verbatim>\<open>uint64_t\<close>
  (\<open>conv_uint64\<close>); an operand of \<^verbatim>\<open>*=\<close> is taken by the 32-bit overload
  (\<open>conv_uint32\<close>). A division by zero raises \<^verbatim>\<open>uint_error\<close>. The properties
  proved below apply these conversions to values between 0 and \<open>2^31\<close> only, where
  they are the identity whatever the overload.
\<close>

definition conv_uint64 :: "int \<Rightarrow> arith_uint256" where
  "conv_uint64 x = ucast (word_of_int x :: 64 word)"

definition conv_uint32 :: "int \<Rightarrow> arith_uint256" where
  "conv_uint32 x = ucast (word_of_int x :: 32 word)"

text \<open>
  \<^verbatim>\<open>while (p->GetBlockHeader().IsHiveMined(params)) { assert(p->pprev); p = p->pprev; }\<close>,
  the loop that \<^verbatim>\<open>GetNextWorkRequired\<close> runs at the tip and before each of the 24
  blocks it averages.
\<close>

fun skip_hivemined :: "Params \<Rightarrow> pindex \<Rightarrow> fault + pindex" where
  "skip_hivemined P [] = Inl NullDeref"
| "skip_hivemined P (b # pprev) =
     (if IsHiveMined b P
      then (if pprev = [] then Inl AssertionFailed else skip_hivemined P pprev)
      else Inr (b # pprev))"

text \<open>
  The \<^verbatim>\<open>for\<close> loop over \<^verbatim>\<open>nPastBlocks\<close> blocks: the first argument is the number of
  iterations left, the result is \<^verbatim>\<open>bnPastTargetAvg\<close> and \<^verbatim>\<open>pindex\<close> after the loop.
\<close>

fun past_target_loop ::
  "(uint32 \<Rightarrow> arith_uint256) \<Rightarrow> Params \<Rightarrow> nat \<Rightarrow> pindex \<Rightarrow> arith_uint256
     \<Rightarrow> fault + (arith_uint256 \<times> pindex)" where
  "past_target_loop SetCompact P 0 pindex bnPastTargetAvg = Inr (bnPastTargetAvg, pindex)"
| "past_target_loop SetCompact P (Suc i) pindex bnPastTargetAvg =
     (case skip_hivemined P pindex of
        Inl f \<Rightarrow> Inl f
      | Inr [] \<Rightarrow> Inl NullDeref
      | Inr (b # pprev) \<Rightarrow>
          if pprev = [] then Inl AssertionFailed
          else past_target_loop SetCompact P i pprev
                 (bnPastTargetAvg + SetCompact (nBits b) div conv_uint64 24))"

text \<open>Lines 69 to 85: the timespan, its clamp, and the new target.\<close>

definition retarget ::
  "(arith_uint256 \<Rightarrow> uint32) \<Rightarrow> Params \<Rightarrow> arith_uint256 \<Rightarrow> int \<Rightarrow> fault + uint32" where
  "retarget GetCompact P bnPastTargetAvg nActualTimespan0 =
     (let nTargetTimespan = 24 * nPowTargetSpacing P in
      if \<not> in_int64 nTargetTimespan \<or> \<not> in_int64 (nTargetTimespan * 3)
      then Inl SignedOverflow
      else
        let nActualTimespan1 =
              (if nActualTimespan0 < cdiv nTargetTimespan 3
               then cdiv nTargetTimespan 3 else nActualTimespan0);
            nActualTimespan =
              (if nActualTimespan1 > nTargetTimespan * 3
               then nTargetTimespan * 3 else nActualTimespan1);
            bnNew1 = bnPastTargetAvg * conv_uint32 nActualTimespan
        in if conv_uint64 nTargetTimespan = 0 then Inl uint_error
           else
             let bnNew2 = bnNew1 div conv_uint64 nTargetTimespan;
                 bnNew = (if bnNew2 > powLimit P then powLimit P else bnNew2)
             in Inr (GetCompact bnNew))"

definition GetNextWorkRequired ::
  "(uint32 \<Rightarrow> arith_uint256) \<Rightarrow> (arith_uint256 \<Rightarrow> uint32) \<Rightarrow> pindex
     \<Rightarrow> 'a CBlockHeader_scheme \<Rightarrow> Params \<Rightarrow> fault + uint32" where
  "GetNextWorkRequired SetCompact GetCompact pindexLast pblock P =
     (case pindexLast of
        [] \<Rightarrow> Inl AssertionFailed
      | tip # _ \<Rightarrow>
          if nHeight tip < lastInitialDistributionHeight P
          then Inr (GetCompact (powLimitInitialDistribution P))
          else if fPowAllowMinDifficultyBlocks P \<and>
                  \<not> in_int64 (GetBlockTime tip + nPowTargetSpacing P * 10)
          then Inl SignedOverflow
          else if fPowAllowMinDifficultyBlocks P \<and>
                  uint (hdr_nTime pblock) > GetBlockTime tip + nPowTargetSpacing P * 10
          then Inr (GetCompact (powLimit P))
          else
            (case skip_hivemined P pindexLast of
               Inl f \<Rightarrow> Inl f
             | Inr pindexLast' \<Rightarrow>
                 (case past_target_loop SetCompact P 24 pindexLast' 0 of
                    Inl f \<Rightarrow> Inl f
                  | Inr (bnPastTargetAvg, pindex) \<Rightarrow>
                      (case (pindexLast', pindex) of
                         (newest # _, oldest # _) \<Rightarrow>
                           retarget GetCompact P bnPastTargetAvg
                             (GetBlockTime newest - GetBlockTime oldest)
                       | _ \<Rightarrow> Inl NullDeref))))"

text \<open>
  The moving average that the loop accumulates: the sum of \<open>target / 24\<close> over the PoW
  blocks of a stretch of chain.
\<close>

definition pow_target_sum :: "(uint32 \<Rightarrow> arith_uint256) \<Rightarrow> Params \<Rightarrow> CBlockIndex list \<Rightarrow> arith_uint256" where
  "pow_target_sum SetCompact P bs =
     sum_list (map (\<lambda>b. SetCompact (nBits b) div 24) (filter (\<lambda>b. \<not> IsHiveMined b P) bs))"

text \<open>The clamp of the actual timespan to a third and three times the target timespan.\<close>

definition clamp_timespan :: "Params \<Rightarrow> int \<Rightarrow> int" where
  "clamp_timespan P t =
     max (24 * nPowTargetSpacing P div 3) (min (24 * nPowTargetSpacing P * 3) t)"

text \<open>
  The \<^verbatim>\<open>while\<close> loop of \<^verbatim>\<open>GetNextHiveWorkRequired\<close>. The state is \<^verbatim>\<open>pindexLast\<close>,
  \<^verbatim>\<open>dwarfHashTarget\<close>, \<^verbatim>\<open>hiveBlockCount\<close> and \<^verbatim>\<open>totalBlockCount\<close>; the loop condition
  reads \<^verbatim>\<open>pindexLast->pprev\<close> only when the count is still below the window.
\<close>

fun hive_window_loop ::
  "(uint32 \<Rightarrow> arith_uint256) \<Rightarrow> Params \<Rightarrow> pindex \<Rightarrow> arith_uint256 \<Rightarrow> int \<Rightarrow> int
     \<Rightarrow> fault + (arith_uint256 \<times> int \<times> int \<times> pindex)" where
  "hive_window_loop SetCompact P [] dwarfHashTarget hiveBlockCount totalBlockCount =
     (if hiveBlockCount < hiveDifficultyWindow P then Inl NullDeref
      else Inr (dwarfHashTarget, hiveBlockCount, totalBlockCount, []))"
| "hive_window_loop SetCompact P (b # pprev) dwarfHashTarget hiveBlockCount totalBlockCount =
     (if hiveBlockCount < hiveDifficultyWindow P \<and> pprev \<noteq> [] \<and> nHeight b \<ge> minHiveCheckBlock P
      then hive_window_loop SetCompact P pprev
             (if IsHiveMined b P then dwarfHashTarget + SetCompact (nBits b) else dwarfHashTarget)
             (if IsHiveMined b P then hiveBlockCount + 1 else hiveBlockCount)
             (totalBlockCount + 1)
      else Inr (dwarfHashTarget, hiveBlockCount, totalBlockCount, b # pprev))"

definition GetNextHiveWorkRequired ::
  "(uint32 \<Rightarrow> arith_uint256) \<Rightarrow> (arith_uint256 \<Rightarrow> uint32) \<Rightarrow> pindex \<Rightarrow> Params
     \<Rightarrow> fault + uint32" where
  "GetNextHiveWorkRequired SetCompact GetCompact pindexLast P =
     (case hive_window_loop SetCompact P pindexLast 0 0 0 of
        Inl f \<Rightarrow> Inl f
      | Inr (dwarfHashTarget0, hiveBlockCount, totalBlockCount, _) \<Rightarrow>
          if hiveBlockCount = 0 then Inr (GetCompact (powLimitHive P))
          else if conv_uint64 hiveBlockCount = 0 then Inl uint_error
          else
            let dwarfHashTarget1 = dwarfHashTarget0 div conv_uint64 hiveBlockCount in
            if \<not> in_int32 (hiveBlockCount * hiveBlockSpacingTarget P) then Inl SignedOverflow
            else
              let targetTotalBlockCount = hiveBlockCount * hiveBlockSpacingTarget P;
                  dwarfHashTarget2 = dwarfHashTarget1 * conv_uint32 totalBlockCount
              in if conv_uint64 targetTotalBlockCount = 0 then Inl uint_error
                 else
                   let dwarfHashTarget3 = dwarfHashTarget2 div conv_uint64 targetTotalBlockCount;
                       dwarfHashTarget =
                         (if dwarfHashTarget3 > powLimitHive P then powLimitHive P
                          else dwarfHashTarget3)
                   in Inr (GetCompact dwarfHashTarget))"

text \<open>The Hive blocks of a stretch of chain, and the sum of their targets.\<close>

definition hive_blocks :: "Params \<Rightarrow> CBlockIndex list \<Rightarrow> CBlockIndex list" where
  "hive_blocks P bs = filter (\<lambda>b. IsHiveMined b P) bs"

definition hive_target_sum ::
  "(uint32 \<Rightarrow> arith_uint256) \<Rightarrow> Params \<Rightarrow> CBlockIndex list \<Rightarrow> arith_uint256" where
  "hive_target_sum SetCompact P bs = sum_list (map (\<lambda>b. SetCompact (nBits b)) (hive_blocks P bs))"

section \<open>The Hive proof validator\<close>

text \<open>
  What \<^verbatim>\<open>CheckHiveProof\<close> calls outside \<^verbatim>\<open>pow.cpp\<close>, as parameters: the block index
  map (\<open>[]\<close> is the null pointer that \<^verbatim>\<open>operator[]\<close> yields, also for a key it has to
  insert), the UTXO view behind \<^verbatim>\<open>pcoinsTip\<close> (\<open>None\<close> when the pointer is null), the
  block database lookup (the transaction and \<^verbatim>\<open>foundAt.nHeight\<close>), scripts and
  destinations (\<open>GetScriptForDestination\<close> takes the address, as in
  \<^verbatim>\<open>GetScriptForDestination(DecodeDestination(address))\<close>), hashing (\<open>HashString\<close> is
  the \<^verbatim>\<open>CHashWriter\<close> hash of a string, \<open>GetHex\<close> is \<^verbatim>\<open>ToString\<close>, \<open>to_string\<close> is
  \<^verbatim>\<open>std::to_string\<close>), signature recovery, the compact encoding, and the opcodes.
  An \<^verbatim>\<open>arith_uint256\<close> built from the hex string of a hash is that hash as a number.
\<close>

record hive_env =
  mapBlockIndex :: "uint256 \<Rightarrow> pindex"
  pcoinsTip :: "(COutPoint \<Rightarrow> Coin option) option"
  GetTxByHashAndHeight :: "uint256 \<Rightarrow> uint32 \<Rightarrow> pindex \<Rightarrow> (CTransaction \<times> int) option"
  GetScriptForDestination :: "string \<Rightarrow> CScript"
  IsDCT :: "CTransaction \<Rightarrow> CScript \<Rightarrow> bool"
  IsDCTScript :: "CScript \<Rightarrow> CScript \<Rightarrow> CScript option"
  IsCoinBase :: "CTransaction \<Rightarrow> bool"
  ExtractDestination :: "CScript \<Rightarrow> CTxDestination option"
  IsValidDestination :: "CTxDestination \<Rightarrow> bool"
  GetDeterministicRandString :: "pindex \<Rightarrow> cstring"
  MinotaurHashArbitrary :: "cstring \<Rightarrow> uint256"
  GetHex :: "uint256 \<Rightarrow> cstring"
  to_string :: "uint32 \<Rightarrow> cstring"
  uint256S :: "cstring \<Rightarrow> uint256"
  HashString :: "cstring \<Rightarrow> uint256"
  RecoverCompact :: "uint256 \<Rightarrow> byte list \<Rightarrow> CPubKey option"
  GetID :: "CPubKey \<Rightarrow> CKeyID"
  SetCompact :: "uint32 \<Rightarrow> arith_uint256"
  GetCompact :: "arith_uint256 \<Rightarrow> uint32"
  OP_RETURN :: byte
  OP_DWARF :: byte
  OP_TRUE :: byte

text \<open>Every \<^verbatim>\<open>return false\<close> of \<^verbatim>\<open>CheckHiveProof\<close>, in the order of the source.\<close>

datatype reject =
    NoPrevIndex
  | SlowStart
  | TooManyHiveBlocks
  | ContainsDCTs
  | BadCoinbase
  | BadVoutCount
  | ProofTooShort
  | BadProofPrefix
  | TargetNotMet
  | NoRewardAddress
  | InvalidRewardAddress
  | NoPubkeyForReward
  | NoRecover
  | SignatureMismatch
  | DCTNotFound
  | ContribNotFound
  | WrongDonation
  | HeightConflict
  | Immature
  | TooOld
  | NotDCTScript
  | NoRewardAddressDCT
  | RewardMismatch
  | FeeBelowCost
  | NotEnoughDwarves

text \<open>
  A check ends in a fault, in \<^verbatim>\<open>return false\<close> with its reason, or goes on with a value;
  \<open>Pass ()\<close> at the end is \<^verbatim>\<open>return true\<close>.
\<close>

datatype 'a outcome = Fault fault | Reject reject | Pass 'a

fun obind :: "'a outcome \<Rightarrow> ('a \<Rightarrow> 'b outcome) \<Rightarrow> 'b outcome" where
  "obind (Fault f) k = Fault f"
| "obind (Reject r) k = Reject r"
| "obind (Pass x) k = k x"

definition require :: "bool \<Rightarrow> reject \<Rightarrow> unit outcome" where
  "require ok r = (if ok then Pass () else Reject r)"

definition of_sum :: "fault + 'a \<Rightarrow> 'a outcome" where
  "of_sum r = (case r of Inl f \<Rightarrow> Fault f | Inr x \<Rightarrow> Pass x)"

text \<open>\<^verbatim>\<open>std::string::c_str()\<close> read as a C string ends at the first zero byte.\<close>

definition c_str :: "cstring \<Rightarrow> cstring" where
  "c_str s = takeWhile (\<lambda>c. c \<noteq> 0) s"

text \<open>
  Modelled from the spec: \<^verbatim>\<open>ReadLE32\<close> is declared in \<^verbatim>\<open>crypto/common.h\<close>; by the
  spec, the nonce and the height of the proof script are little-endian 32-bit values.
\<close>

definition ReadLE32 :: "byte list \<Rightarrow> uint32" where
  "ReadLE32 bs = ucast (bs ! 0) OR push_bit 8 (ucast (bs ! 1))
                 OR push_bit 16 (ucast (bs ! 2)) OR push_bit 24 (ucast (bs ! 3))"

text \<open>Lines 246 to 258: the previous block's index is read before it is tested.\<close>

definition prev_index :: "hive_env \<Rightarrow> CBlock \<Rightarrow> (pindex \<times> int) outcome" where
  "prev_index E pblock =
     (let pindexPrev = mapBlockIndex E (hdr_hashPrevBlock pblock) in
      case pindexPrev of
        [] \<Rightarrow> Fault NullDeref
      | b # _ \<Rightarrow>
          if \<not> in_int32 (nHeight b + 1) then Fault SignedOverflow
          else
            let blockHeight = nHeight b + 1 in
            if pindexPrev = [] then Reject NoPrevIndex
            else Pass (pindexPrev, blockHeight))"

text \<open>
  The loop of \<^verbatim>\<open>CheckHiveProof\<close> (\<^verbatim>\<open>pow.cpp\<close>) that counts Hive blocks from the
  previous block backwards. The accumulator is \<^verbatim>\<open>hiveBlocksSincePow\<close>.
\<close>

fun CheckHiveProof_hiveBlocksSincePow :: "Params \<Rightarrow> pindex \<Rightarrow> int \<Rightarrow> fault + int" where
  "CheckHiveProof_hiveBlocksSincePow P [] n = Inl NullDeref"
| "CheckHiveProof_hiveBlocksSincePow P (b # pprev) n =
     (if IsHiveMined b P
      then (if pprev = [] then Inl AssertionFailed
            else CheckHiveProof_hiveBlocksSincePow P pprev (n + 1))
      else Inr n)"

text \<open>Lines 260 to 313: slow start, consecutive Hive blocks, no DCT, shape of the coinbase.\<close>

definition coinbase_shape :: "hive_env \<Rightarrow> Params \<Rightarrow> CBlock \<Rightarrow> pindex \<Rightarrow> int \<Rightarrow> CTransaction outcome" where
  "coinbase_shape E P pblock pindexPrev blockHeight =
     obind (require (\<not> blockHeight < lastInitialDistributionHeight P + slowStartBlocks P) SlowStart) (\<lambda>_.
     obind (of_sum (CheckHiveProof_hiveBlocksSincePow P pindexPrev 0)) (\<lambda>hiveBlocksSincePow.
     obind (require (\<not> hiveBlocksSincePow \<ge> maxConsecutiveHiveBlocks P) TooManyHiveBlocks) (\<lambda>_.
     obind (require (\<not> list_ex (\<lambda>tx. IsDCT E tx (GetScriptForDestination E (dwarfCreationAddress P)))
                          (tl (vtx pblock))) ContainsDCTs) (\<lambda>_.
     case vtx pblock of
       [] \<Rightarrow> Fault OutOfRange
     | txCoinbase # _ \<Rightarrow>
         obind (require (IsCoinBase E txCoinbase) BadCoinbase) (\<lambda>_.
         obind (require (\<not> (length (vout txCoinbase) < 2 \<or> length (vout txCoinbase) > 3))
                  BadVoutCount) (\<lambda>_.
         obind (require (\<not> length (scriptPubKey (vout txCoinbase ! 0)) < 144) ProofTooShort) (\<lambda>_.
         obind (require (\<not> (scriptPubKey (vout txCoinbase ! 0) ! 0 \<noteq> OP_RETURN E \<or>
                             scriptPubKey (vout txCoinbase ! 0) ! 1 \<noteq> OP_DWARF E))
                  BadProofPrefix) (\<lambda>_.
         Pass txCoinbase))))))))"

text \<open>Lines 336 to 353: the dwarf hash against the Hive target.\<close>

definition dwarf_hash :: "hive_env \<Rightarrow> cstring \<Rightarrow> cstring \<Rightarrow> uint32 \<Rightarrow> arith_uint256" where
  "dwarf_hash E deterministicRandString txidStr dwarfNonce =
     MinotaurHashArbitrary E (c_str (GetHex E
       (MinotaurHashArbitrary E
          (c_str (deterministicRandString @ txidStr @ to_string E dwarfNonce)))))"

definition hash_target_check ::
  "hive_env \<Rightarrow> Params \<Rightarrow> pindex \<Rightarrow> cstring \<Rightarrow> uint32 \<Rightarrow> unit outcome" where
  "hash_target_check E P pindexPrev txidStr dwarfNonce =
     obind (of_sum (GetNextHiveWorkRequired (SetCompact E) (GetCompact E) pindexPrev P)) (\<lambda>bits.
     require (\<not> dwarf_hash E (GetDeterministicRandString E pindexPrev) txidStr dwarfNonce
                  \<ge> SetCompact E bits) TargetNotMet)"

text \<open>Lines 355 to 390: the reward destination and the signature over the rand string.\<close>

definition reward_signature_check ::
  "hive_env \<Rightarrow> pindex \<Rightarrow> CTransaction \<Rightarrow> byte list \<Rightarrow> CTxDestination outcome" where
  "reward_signature_check E pindexPrev txCoinbase messageSig =
     (case ExtractDestination E (scriptPubKey (vout txCoinbase ! 1)) of
        None \<Rightarrow> Reject NoRewardAddress
      | Some rewardDestination \<Rightarrow>
          if \<not> IsValidDestination E rewardDestination then Reject InvalidRewardAddress
          else
            (case rewardDestination of
               KeyID keyID \<Rightarrow>
                 (case RecoverCompact E (HashString E (GetDeterministicRandString E pindexPrev))
                         messageSig of
                    None \<Rightarrow> Reject NoRecover
                  | Some pubkey \<Rightarrow>
                      if GetID E pubkey \<noteq> keyID then Reject SignatureMismatch
                      else Pass rewardDestination)
             | _ \<Rightarrow> Reject NoPubkeyForReward))"

text \<open>\<^verbatim>\<open>pcoinsTip && pcoinsTip->GetCoin(outpoint, coin)\<close>.\<close>

definition GetCoin :: "hive_env \<Rightarrow> COutPoint \<Rightarrow> Coin option" where
  "GetCoin E outpoint = (case pcoinsTip E of None \<Rightarrow> None | Some view \<Rightarrow> view outpoint)"

text \<open>
  Lines 400 to 423: the DCT output, from the UTXO set or from the block database. The
  result is \<^verbatim>\<open>dctValue\<close>, \<^verbatim>\<open>dctScriptPubKey\<close>, \<^verbatim>\<open>dctFoundHeight\<close> and \<^verbatim>\<open>dct\<close>
  (\<open>None\<close> for \<^verbatim>\<open>nullptr\<close>).
\<close>

definition fetch_dct ::
  "hive_env \<Rightarrow> pindex \<Rightarrow> cstring \<Rightarrow> uint32
     \<Rightarrow> (CAmount \<times> CScript \<times> uint32 \<times> CTransaction option) outcome" where
  "fetch_dct E pindexPrev txidStr dctClaimedHeight =
     (case GetCoin E (uint256S E txidStr, 0) of
        Some coin \<Rightarrow> Pass (nValue (out coin), scriptPubKey (out coin), coin_nHeight coin, None)
      | None \<Rightarrow>
          (case GetTxByHashAndHeight E (uint256S E txidStr) dctClaimedHeight pindexPrev of
             None \<Rightarrow> Reject DCTNotFound
           | Some (dct, foundAt_nHeight) \<Rightarrow>
               (case vout dct of
                  [] \<Rightarrow> Fault OutOfRange
                | out0 # _ \<Rightarrow>
                    Pass (nValue out0, scriptPubKey out0, word_of_int foundAt_nHeight, Some dct))))"

text \<open>Lines 425 to 454: the output that pays the community fund, and its amount.\<close>

definition donation_of_dct :: "CScript \<Rightarrow> CTransaction \<Rightarrow> CAmount outcome" where
  "donation_of_dct scriptPubKeyCF dct =
     (if length (vout dct) < 2 \<or> scriptPubKey (vout dct ! 1) \<noteq> scriptPubKeyCF
      then Reject ContribNotFound
      else Pass (nValue (vout dct ! 1)))"

definition find_donation ::
  "hive_env \<Rightarrow> Params \<Rightarrow> pindex \<Rightarrow> cstring \<Rightarrow> uint32 \<Rightarrow> CTransaction option
     \<Rightarrow> CAmount outcome" where
  "find_donation E P pindexPrev txidStr dctClaimedHeight dct =
     (let scriptPubKeyCF = GetScriptForDestination E (hiveCommunityAddress P) in
      case dct of
        Some d \<Rightarrow> donation_of_dct scriptPubKeyCF d
      | None \<Rightarrow>
          (case GetCoin E (uint256S E txidStr, 1) of
             Some coin \<Rightarrow>
               if scriptPubKey (out coin) \<noteq> scriptPubKeyCF then Reject ContribNotFound
               else Pass (nValue (out coin))
           | None \<Rightarrow>
               (case GetTxByHashAndHeight E (uint256S E txidStr) dctClaimedHeight pindexPrev of
                  None \<Rightarrow> Reject DCTNotFound
                | Some (d, _) \<Rightarrow> donation_of_dct scriptPubKeyCF d)))"

text \<open>
  Lines 456 to 464: the donation must equal the expected amount, and is then added to
  \<^verbatim>\<open>dctValue\<close>. The sum and the quotient are those of \<^verbatim>\<open>int64_t\<close>.
\<close>

definition community_donation :: "Params \<Rightarrow> CAmount \<Rightarrow> CAmount \<Rightarrow> CAmount outcome" where
  "community_donation P dctValue donationAmount =
     (if \<not> in_int64 (dctValue + donationAmount) then Fault SignedOverflow
      else if communityContribFactor P = 0 then Fault DivisionByZero
      else if dctValue + donationAmount = - (2 ^ 63) \<and> communityContribFactor P = - 1
      then Fault SignedOverflow
      else
        let expectedDonationAmount =
              cdiv (dctValue + donationAmount) (communityContribFactor P) in
        if donationAmount \<noteq> expectedDonationAmount then Reject WrongDonation
        else Pass (dctValue + donationAmount))"

text \<open>Lines 468 to 501: height, maturity, the DCT script and its reward destination.\<close>

definition dct_checks ::
  "hive_env \<Rightarrow> Params \<Rightarrow> int \<Rightarrow> uint32 \<Rightarrow> uint32 \<Rightarrow> CScript \<Rightarrow> CTxDestination
     \<Rightarrow> unit outcome" where
  "dct_checks E P blockHeight dctClaimedHeight dctFoundHeight dctScriptPubKey rewardDestination =
     obind (require (\<not> dctFoundHeight \<noteq> dctClaimedHeight) HeightConflict) (\<lambda>_.
     let dctDepth = sint ((word_of_int blockHeight :: uint32) - dctFoundHeight) in
     obind (require (\<not> dctDepth < dwarfGestationBlocks P) Immature) (\<lambda>_.
     obind (require (\<not> dctDepth > dwarfGestationBlocks P + dwarfLifespanBlocks P) TooOld) (\<lambda>_.
     case IsDCTScript E dctScriptPubKey (GetScriptForDestination E (dwarfCreationAddress P)) of
       None \<Rightarrow> Reject NotDCTScript
     | Some scriptPubKeyReward \<Rightarrow>
         (case ExtractDestination E scriptPubKeyReward of
            None \<Rightarrow> Reject NoRewardAddressDCT
          | Some rewardDestinationDCT \<Rightarrow>
              require (\<not> rewardDestination \<noteq> rewardDestinationDCT) RewardMismatch))))"

text \<open>
  Lines 503 to 518: \<^verbatim>\<open>unsigned int dwarfCount = dctValue / consensusParams.dwarfCost\<close>
  narrows the 64-bit quotient to 32 bits. The quotient itself cannot overflow, since
  \<^verbatim>\<open>dctValue\<close> is not below \<^verbatim>\<open>dwarfCost\<close> there.
\<close>

definition dwarf_count :: "Params \<Rightarrow> CAmount \<Rightarrow> uint32" where
  "dwarf_count P dctValue = word_of_int (cdiv dctValue (dwarfCost P))"

definition dwarf_count_check :: "Params \<Rightarrow> CAmount \<Rightarrow> uint32 \<Rightarrow> unit outcome" where
  "dwarf_count_check P dctValue dwarfNonce =
     (if dctValue < dwarfCost P then Reject FeeBelowCost
      else if dwarfCost P = 0 then Fault DivisionByZero
      else
        let dwarfCount = dwarf_count P dctValue in
        if dwarfNonce \<ge> dwarfCount then Reject NotEnoughDwarves
        else Pass ())"

text \<open>
  What \<^verbatim>\<open>CheckHiveProof\<close> has in its local variables once the DCT output is found:
  the previous index and the height, the fields decoded from the proof script, the reward
  destination, and \<^verbatim>\<open>dctValue\<close>, \<^verbatim>\<open>dctScriptPubKey\<close>, \<^verbatim>\<open>dctFoundHeight\<close> and
  \<^verbatim>\<open>dct\<close> as fetched.
\<close>

record hive_proof =
  hp_pindexPrev :: pindex
  hp_blockHeight :: int
  hp_dwarfNonce :: uint32
  hp_dctClaimedHeight :: uint32
  hp_communityContrib :: bool
  hp_txidStr :: cstring
  hp_rewardDestination :: CTxDestination
  hp_dctValue :: CAmount
  hp_dctScriptPubKey :: CScript
  hp_dctFoundHeight :: uint32
  hp_dct :: "CTransaction option"

text \<open>Lines 246 to 423: from the block to the DCT output.\<close>

definition locate_dct :: "hive_env \<Rightarrow> CBlock \<Rightarrow> Params \<Rightarrow> hive_proof outcome" where
  "locate_dct E pblock P =
     obind (prev_index E pblock) (\<lambda>(pindexPrev, blockHeight).
     obind (coinbase_shape E P pblock pindexPrev blockHeight) (\<lambda>txCoinbase.
     let proofScript = scriptPubKey (vout txCoinbase ! 0);
         dwarfNonce = ReadLE32 (drop 3 proofScript);
         dctClaimedHeight = ReadLE32 (drop 8 proofScript);
         communityContrib = (proofScript ! 12 = OP_TRUE E);
         txidStr = take 64 (drop 14 proofScript);
         messageSig = take 65 (drop 79 proofScript)
     in
     obind (hash_target_check E P pindexPrev txidStr dwarfNonce) (\<lambda>_.
     obind (reward_signature_check E pindexPrev txCoinbase messageSig) (\<lambda>rewardDestination.
     obind (fetch_dct E pindexPrev txidStr dctClaimedHeight)
       (\<lambda>(dctValue, dctScriptPubKey, dctFoundHeight, dct).
     Pass \<lparr>hp_pindexPrev = pindexPrev, hp_blockHeight = blockHeight,
           hp_dwarfNonce = dwarfNonce, hp_dctClaimedHeight = dctClaimedHeight,
           hp_communityContrib = communityContrib, hp_txidStr = txidStr,
           hp_rewardDestination = rewardDestination, hp_dctValue = dctValue,
           hp_dctScriptPubKey = dctScriptPubKey, hp_dctFoundHeight = dctFoundHeight,
           hp_dct = dct\<rparr>)))))"

text \<open>Lines 425 to 465: \<^verbatim>\<open>dctValue\<close> after the community contribution, if one is claimed.\<close>

definition paid_value :: "hive_env \<Rightarrow> Params \<Rightarrow> hive_proof \<Rightarrow> CAmount outcome" where
  "paid_value E P c =
     (if hp_communityContrib c
      then obind (find_donation E P (hp_pindexPrev c) (hp_txidStr c) (hp_dctClaimedHeight c)
                    (hp_dct c))
             (community_donation P (hp_dctValue c))
      else Pass (hp_dctValue c))"

text \<open>Lines 468 to 522: the checks on the DCT, then the dwarf count on the value paid.\<close>

definition final_checks :: "hive_env \<Rightarrow> Params \<Rightarrow> hive_proof \<Rightarrow> CAmount \<Rightarrow> unit outcome" where
  "final_checks E P c dctValue =
     obind (dct_checks E P (hp_blockHeight c) (hp_dctClaimedHeight c) (hp_dctFoundHeight c)
              (hp_dctScriptPubKey c) (hp_rewardDestination c)) (\<lambda>_.
     dwarf_count_check P dctValue (hp_dwarfNonce c))"

definition CheckHiveProof :: "hive_env \<Rightarrow> CBlock \<Rightarrow> Params \<Rightarrow> unit outcome" where
  "CheckHiveProof E pblock P =
     obind (locate_dct E pblock P) (\<lambda>c.
     obind (paid_value E P c) (\<lambda>dctValue.
     final_checks E P c dctValue))"

section \<open>The miners\<close>

text \<open>The loop of the same purpose in \<^verbatim>\<open>BusyDwarves\<close> (\<^verbatim>\<open>miner.cpp\<close>).\<close>

fun BusyDwarves_hiveBlocksSincePow :: "Params \<Rightarrow> pindex \<Rightarrow> int \<Rightarrow> fault + int" where
  "BusyDwarves_hiveBlocksSincePow P [] n = Inl NullDeref"
| "BusyDwarves_hiveBlocksSincePow P (b # pprev) n =
     (if IsPopMined b P \<or> IsHiveMined b P
      then (if pprev = [] then Inl AssertionFailed
            else BusyDwarves_hiveBlocksSincePow P pprev (if IsHiveMined b P then n + 1 else n))
      else Inr n)"

text \<open>
  What \<^verbatim>\<open>IncrementExtraNonce\<close> uses from other files: the script encodings
  \<^verbatim>\<open>CScript() << int64_t\<close> and \<^verbatim>\<open><< CScriptNum\<close>, \<^verbatim>\<open>COINBASE_FLAGS\<close>, and the
  merkle root of a block.
\<close>

record script_env =
  push_int64 :: "int \<Rightarrow> CScript"
  push_CScriptNum :: "int \<Rightarrow> CScript"
  COINBASE_FLAGS :: CScript
  BlockMerkleRoot :: "CBlock \<Rightarrow> uint256"

text \<open>
  \<^verbatim>\<open>IncrementExtraNonce\<close>. The function-local \<^verbatim>\<open>static uint256 hashPrevBlock\<close> is the
  last argument and the last component of the result; \<^verbatim>\<open>nExtraNonce\<close> is passed by
  reference, so it is an argument and a component of the result too.
\<close>

definition IncrementExtraNonce ::
  "script_env \<Rightarrow> CBlock \<Rightarrow> pindex \<Rightarrow> uint32 \<Rightarrow> uint256 \<Rightarrow> fault + (CBlock \<times> uint32 \<times> uint256)" where
  "IncrementExtraNonce E pblock pindexPrev nExtraNonce0 hashPrevBlock0 =
     (let changed = (hashPrevBlock0 \<noteq> hdr_hashPrevBlock pblock);
          nExtraNonce1 = (if changed then 0 else nExtraNonce0);
          hashPrevBlock = (if changed then hdr_hashPrevBlock pblock else hashPrevBlock0);
          nExtraNonce = nExtraNonce1 + 1
      in case pindexPrev of
           [] \<Rightarrow> Inl NullDeref
         | b # _ \<Rightarrow>
             if \<not> in_int32 (nHeight b + 1) then Inl SignedOverflow
             else
               let nHeight' = (word_of_int (nHeight b + 1) :: uint32) in
               (case vtx pblock of
                  [] \<Rightarrow> Inl OutOfRange
                | tx0 # txs \<Rightarrow>
                    (case vin tx0 of
                       [] \<Rightarrow> Inl OutOfRange
                     | in0 # ins \<Rightarrow>
                         let sig = push_int64 E (uint nHeight')
                                     @ push_CScriptNum E (uint nExtraNonce) @ COINBASE_FLAGS E
                         in if \<not> length sig \<le> 100 then Inl AssertionFailed
                            else
                              let pblock1 =
                                    pblock\<lparr>vtx := tx0\<lparr>vin := in0\<lparr>scriptSig := sig\<rparr> # ins\<rparr> # txs\<rparr>
                              in Inr (pblock1\<lparr>hdr_hashMerkleRoot := BlockMerkleRoot E pblock1\<rparr>,
                                      nExtraNonce, hashPrevBlock))))"

text \<open>The coinbase script that a call writes, from the height and the new counter.\<close>

definition coinbase_scriptSig :: "script_env \<Rightarrow> pindex \<Rightarrow> uint32 \<Rightarrow> CScript" where
  "coinbase_scriptSig E pindexPrev nExtraNonce =
     push_int64 E (uint (word_of_int (nHeight (hd pindexPrev) + 1) :: uint32))
       @ push_CScriptNum E (uint nExtraNonce) @ COINBASE_FLAGS E"








section \<open>The block assembler\<close>

text \<open>
  A mempool iterator \<^verbatim>\<open>CTxMemPool::txiter\<close> is a number; \<open>mapTx\<close> gives the entry it
  points to. Sizes, weights and sigop costs are \<open>int\<close>: they stay far below the bounds
  of their 64-bit types.
\<close>

type_synonym txiter = nat

record CTxMemPoolEntry =
  GetSharedTx :: CTransaction
  GetTxSize :: int
  GetTxWeight :: int
  GetFee :: CAmount
  GetModifiedFee :: CAmount
  GetSigOpCost :: int
  GetSizeWithAncestors :: int
  GetModFeesWithAncestors :: CAmount
  GetSigOpCostWithAncestors :: int

record CTxMemPoolModifiedEntry =
  iter :: txiter
  nSizeWithAncestors :: int
  nModFeesWithAncestors :: CAmount
  nSigOpCostWithAncestors :: int

text \<open>
  The mempool and the declarations of \<^verbatim>\<open>miner.h\<close>, \<^verbatim>\<open>txmempool.h\<close> and
  \<^verbatim>\<open>consensus.h\<close> that \<^verbatim>\<open>miner.cpp\<close> uses, as parameters: the ancestor-score index
  from \<^verbatim>\<open>begin()\<close> to \<^verbatim>\<open>end()\<close>, ancestors and descendants (sets, in their iteration
  order), the comparators, the update functor, the minimum fee, the transaction tests and
  the constants.
\<close>

record mempool_env =
  mapTx :: "txiter \<Rightarrow> CTxMemPoolEntry"
  mapTx_ancestor_score :: "txiter list"
  CalculateMemPoolAncestors :: "txiter \<Rightarrow> txiter list"
  CalculateDescendants :: "txiter \<Rightarrow> txiter list"
  CompareTxMemPoolEntryByAncestorFee ::
    "CTxMemPoolModifiedEntry \<Rightarrow> CTxMemPoolModifiedEntry \<Rightarrow> bool"
  CompareTxIterByAncestorCount :: "txiter \<Rightarrow> txiter \<Rightarrow> bool"
  CompareIteratorByHash :: "txiter \<Rightarrow> txiter \<Rightarrow> bool"
  update_for_parent_inclusion :: "txiter \<Rightarrow> CTxMemPoolModifiedEntry \<Rightarrow> CTxMemPoolModifiedEntry"
  blockMinFeeRate_GetFee :: "int \<Rightarrow> CAmount"
  IsFinalTx :: "CTransaction \<Rightarrow> int \<Rightarrow> int \<Rightarrow> bool"
  HasWitness :: "CTransaction \<Rightarrow> bool"
  tx_IsDCT :: "CTransaction \<Rightarrow> bool"
  WITNESS_SCALE_FACTOR :: int
  MAX_BLOCK_SIGOPS_COST :: int
  MAX_BLOCK_WEIGHT :: int

text \<open>
  The members of \<^verbatim>\<open>BlockAssembler\<close>. The block under construction is kept as the
  transactions, fees and sigop costs that follow the coinbase slot.
\<close>

record BlockAssembler =
  inBlock :: "txiter list"
  nBlockWeight :: int
  nBlockSigOpsCost :: int
  fIncludeWitness :: bool
  fIncludeDCTs :: bool
  nBlockTx :: int
  nFees :: CAmount
  nBlockMaxWeight :: int
  asm_nHeight :: int
  nLockTimeCutoff :: int
  sel_vtx :: "CTransaction list"
  sel_vTxFees :: "CAmount list"
  sel_vTxSigOpsCost :: "int list"

text \<open>The local variables of \<^verbatim>\<open>addPackageTxs\<close>; \<open>mi\<close> is the rest of the index from \<^verbatim>\<open>mi\<close> on.\<close>

record package_loop =
  mi :: "txiter list"
  mapModifiedTx :: "CTxMemPoolModifiedEntry list"
  failedTx :: "txiter list"
  nConsecutiveFailed :: int
  nPackagesSelected :: int
  nDescendantsUpdated :: int

text \<open>The constructor clamps the maximum weight.\<close>

definition clamp_nBlockMaxWeight :: "mempool_env \<Rightarrow> int \<Rightarrow> int" where
  "clamp_nBlockMaxWeight M options_nBlockMaxWeight =
     max 4000 (min (MAX_BLOCK_WEIGHT M - 4000) options_nBlockMaxWeight)"

definition resetBlock :: "BlockAssembler \<Rightarrow> BlockAssembler" where
  "resetBlock A = A\<lparr>inBlock := [], nBlockWeight := 4000, nBlockSigOpsCost := 400,
     fIncludeWitness := False, fIncludeDCTs := True, nBlockTx := 0, nFees := 0\<rparr>"

text \<open>A \<^verbatim>\<open>std::set\<close> of iterators is the list of its elements in the order of its comparator.\<close>

fun set_insert :: "('a \<Rightarrow> 'a \<Rightarrow> bool) \<Rightarrow> 'a \<Rightarrow> 'a list \<Rightarrow> 'a list" where
  "set_insert lt x [] = [x]"
| "set_insert lt x (y # ys) =
     (if lt x y then x # y # ys
      else if lt y x then y # set_insert lt x ys
      else y # ys)"

text \<open>
  The modified-entry set: unique by \<open>iter\<close>, kept in the order of the ancestor-score
  comparator, so that \<^verbatim>\<open>begin()\<close> of that index is the head.
\<close>

fun mod_insert ::
  "mempool_env \<Rightarrow> CTxMemPoolModifiedEntry \<Rightarrow> CTxMemPoolModifiedEntry list
     \<Rightarrow> CTxMemPoolModifiedEntry list" where
  "mod_insert M e [] = [e]"
| "mod_insert M e (y # ys) =
     (if CompareTxMemPoolEntryByAncestorFee M e y then e # y # ys else y # mod_insert M e ys)"

definition mod_erase :: "txiter \<Rightarrow> CTxMemPoolModifiedEntry list \<Rightarrow> CTxMemPoolModifiedEntry list" where
  "mod_erase it m = filter (\<lambda>e. iter e \<noteq> it) m"

text \<open>
  Modelled from the spec: the constructor \<^verbatim>\<open>CTxMemPoolModifiedEntry(entry)\<close> of
  \<^verbatim>\<open>miner.h\<close> starts from the entry's own ancestor aggregates.
\<close>

definition ModifiedEntry :: "mempool_env \<Rightarrow> txiter \<Rightarrow> CTxMemPoolModifiedEntry" where
  "ModifiedEntry M it =
     \<lparr>iter = it, nSizeWithAncestors = GetSizeWithAncestors (mapTx M it),
      nModFeesWithAncestors = GetModFeesWithAncestors (mapTx M it),
      nSigOpCostWithAncestors = GetSigOpCostWithAncestors (mapTx M it)\<rparr>"

definition onlyUnconfirmed :: "BlockAssembler \<Rightarrow> txiter list \<Rightarrow> txiter list" where
  "onlyUnconfirmed A testSet = filter (\<lambda>it. it \<notin> set (inBlock A)) testSet"

definition TestPackage :: "mempool_env \<Rightarrow> BlockAssembler \<Rightarrow> int \<Rightarrow> int \<Rightarrow> bool" where
  "TestPackage M A packageSize packageSigOpsCost =
     (if nBlockWeight A + WITNESS_SCALE_FACTOR M * packageSize \<ge> nBlockMaxWeight A then False
      else if nBlockSigOpsCost A + packageSigOpsCost \<ge> MAX_BLOCK_SIGOPS_COST M then False
      else True)"

definition TestPackageTransactions :: "mempool_env \<Rightarrow> BlockAssembler \<Rightarrow> txiter list \<Rightarrow> bool" where
  "TestPackageTransactions M A package =
     list_all (\<lambda>it.
        \<not> (\<not> IsFinalTx M (GetSharedTx (mapTx M it)) (asm_nHeight A) (nLockTimeCutoff A)) \<and>
        \<not> (\<not> fIncludeWitness A \<and> HasWitness M (GetSharedTx (mapTx M it))) \<and>
        \<not> (\<not> fIncludeDCTs A \<and> tx_IsDCT M (GetSharedTx (mapTx M it)))) package"

definition AddToBlock :: "mempool_env \<Rightarrow> BlockAssembler \<Rightarrow> txiter \<Rightarrow> BlockAssembler" where
  "AddToBlock M A it =
     A\<lparr>sel_vtx := sel_vtx A @ [GetSharedTx (mapTx M it)],
       sel_vTxFees := sel_vTxFees A @ [GetFee (mapTx M it)],
       sel_vTxSigOpsCost := sel_vTxSigOpsCost A @ [GetSigOpCost (mapTx M it)],
       nBlockWeight := nBlockWeight A + GetTxWeight (mapTx M it),
       nBlockTx := nBlockTx A + 1,
       nBlockSigOpsCost := nBlockSigOpsCost A + GetSigOpCost (mapTx M it),
       nFees := nFees A + GetFee (mapTx M it),
       inBlock := set_insert (CompareIteratorByHash M) it (inBlock A)\<rparr>"

text \<open>
  \<^verbatim>\<open>UpdatePackagesForAdded\<close>: the result is the count and the new modified-entry set.
\<close>

definition update_descendant ::
  "mempool_env \<Rightarrow> txiter list \<Rightarrow> txiter \<Rightarrow> txiter
     \<Rightarrow> int \<times> CTxMemPoolModifiedEntry list \<Rightarrow> int \<times> CTxMemPoolModifiedEntry list" where
  "update_descendant M alreadyAdded it desc acc =
     (if desc \<in> set alreadyAdded then acc
      else
        (fst acc + 1,
         case find (\<lambda>e. iter e = desc) (snd acc) of
           None \<Rightarrow>
             mod_insert M
               ((ModifiedEntry M desc)
                  \<lparr>nSizeWithAncestors := GetSizeWithAncestors (mapTx M desc) - GetTxSize (mapTx M it),
                   nModFeesWithAncestors :=
                     GetModFeesWithAncestors (mapTx M desc) - GetModifiedFee (mapTx M it),
                   nSigOpCostWithAncestors :=
                     GetSigOpCostWithAncestors (mapTx M desc) - GetSigOpCost (mapTx M it)\<rparr>)
               (snd acc)
         | Some e \<Rightarrow>
             mod_insert M (update_for_parent_inclusion M it e) (mod_erase desc (snd acc))))"

definition UpdatePackagesForAdded ::
  "mempool_env \<Rightarrow> txiter list \<Rightarrow> CTxMemPoolModifiedEntry list
     \<Rightarrow> int \<times> CTxMemPoolModifiedEntry list" where
  "UpdatePackagesForAdded M alreadyAdded m =
     fold (\<lambda>it acc. fold (update_descendant M alreadyAdded it) (CalculateDescendants M it) acc)
       alreadyAdded (0, m)"

definition SkipMapTxEntry ::
  "BlockAssembler \<Rightarrow> txiter \<Rightarrow> CTxMemPoolModifiedEntry list \<Rightarrow> txiter list \<Rightarrow> bool" where
  "SkipMapTxEntry A it m failed \<longleftrightarrow>
     it \<in> set (map iter m) \<or> it \<in> set (inBlock A) \<or> it \<in> set failed"

text \<open>\<^verbatim>\<open>std::sort\<close> with a comparator that is a strict total order.\<close>

fun insert_sorted :: "('a \<Rightarrow> 'a \<Rightarrow> bool) \<Rightarrow> 'a \<Rightarrow> 'a list \<Rightarrow> 'a list" where
  "insert_sorted lt x [] = [x]"
| "insert_sorted lt x (y # ys) =
     (if lt x y then x # y # ys else y # insert_sorted lt x ys)"

definition SortForBlock :: "mempool_env \<Rightarrow> txiter list \<Rightarrow> txiter list" where
  "SortForBlock M package = foldr (insert_sorted (CompareTxIterByAncestorCount M)) package []"

text \<open>
  Lines 428 to 452: which package to evaluate, the next entry of \<open>mapTx\<close> or the best
  modified entry. The result is \<^verbatim>\<open>iter\<close>, \<^verbatim>\<open>fUsingModified\<close> and the loop variables
  with \<^verbatim>\<open>mi\<close> advanced.
\<close>

definition select_package ::
  "mempool_env \<Rightarrow> package_loop \<Rightarrow> fault + (txiter \<times> bool \<times> package_loop)" where
  "select_package M L =
     (case mi L of
        [] \<Rightarrow>
          (case mapModifiedTx L of
             [] \<Rightarrow> Inl OutOfRange
           | modit # _ \<Rightarrow> Inr (iter modit, True, L))
      | it # rest \<Rightarrow>
          (case mapModifiedTx L of
             [] \<Rightarrow> Inr (it, False, L\<lparr>mi := rest\<rparr>)
           | modit # _ \<Rightarrow>
               if CompareTxMemPoolEntryByAncestorFee M modit (ModifiedEntry M it)
               then Inr (iter modit, True, L)
               else Inr (it, False, L\<lparr>mi := rest\<rparr>)))"

text \<open>
  How one iteration of the \<^verbatim>\<open>while\<close> loop ends: with \<^verbatim>\<open>continue\<close> or at the end of
  the body (the first four), with \<^verbatim>\<open>return\<close>, or with \<^verbatim>\<open>break\<close>.
\<close>

datatype step_result =
    Skipped
  | PackageFailed
  | TransactionsFailed
  | Admitted
  | FeeTooLow
  | GaveUp

definition continues :: "step_result \<Rightarrow> bool" where
  "continues r \<longleftrightarrow> r \<noteq> FeeTooLow \<and> r \<noteq> GaveUp"

definition MAX_CONSECUTIVE_FAILURES :: int where
  "MAX_CONSECUTIVE_FAILURES = 1000"

text \<open>Lines 473 to 479 and 501 to 504: a failed modified entry is erased and remembered.\<close>

definition forget_failed :: "mempool_env \<Rightarrow> bool \<Rightarrow> txiter \<Rightarrow> package_loop \<Rightarrow> package_loop" where
  "forget_failed M fUsingModified it L =
     (if fUsingModified
      then L\<lparr>mapModifiedTx := tl (mapModifiedTx L),
             failedTx := set_insert (CompareIteratorByHash M) it (failedTx L)\<rparr>
      else L)"

text \<open>Lines 508 to 524: the package goes into the block.\<close>

definition admit_package ::
  "mempool_env \<Rightarrow> txiter list \<Rightarrow> BlockAssembler \<times> package_loop \<Rightarrow> BlockAssembler \<times> package_loop" where
  "admit_package M ancestors s =
     (let sortedEntries = SortForBlock M ancestors;
          A' = fold (\<lambda>it A. AddToBlock M A it) sortedEntries (fst s);
          m1 = fold mod_erase sortedEntries (mapModifiedTx (snd s));
          upd = UpdatePackagesForAdded M ancestors m1
      in (A', (snd s)\<lparr>nConsecutiveFailed := 0,
                       mapModifiedTx := snd upd,
                       nPackagesSelected := nPackagesSelected (snd s) + 1,
                       nDescendantsUpdated := nDescendantsUpdated (snd s) + fst upd\<rparr>))"

text \<open>One iteration of the loop of \<^verbatim>\<open>addPackageTxs\<close>, entered with its condition true.\<close>

definition addPackageTxs_step ::
  "mempool_env \<Rightarrow> BlockAssembler \<times> package_loop
     \<Rightarrow> fault + (step_result \<times> (BlockAssembler \<times> package_loop))" where
  "addPackageTxs_step M s =
     (let A = fst s; L = snd s in
      if mi L \<noteq> [] \<and> SkipMapTxEntry A (hd (mi L)) (mapModifiedTx L) (failedTx L)
      then Inr (Skipped, (A, L\<lparr>mi := tl (mi L)\<rparr>))
      else
        (case select_package M L of
           Inl f \<Rightarrow> Inl f
         | Inr (it, fUsingModified, L1) \<Rightarrow>
             if it \<in> set (inBlock A) then Inl AssertionFailed
             else
               let packageSize =
                     (if fUsingModified then nSizeWithAncestors (hd (mapModifiedTx L1))
                      else GetSizeWithAncestors (mapTx M it));
                   packageFees =
                     (if fUsingModified then nModFeesWithAncestors (hd (mapModifiedTx L1))
                      else GetModFeesWithAncestors (mapTx M it));
                   packageSigOpsCost =
                     (if fUsingModified then nSigOpCostWithAncestors (hd (mapModifiedTx L1))
                      else GetSigOpCostWithAncestors (mapTx M it))
               in
               if packageFees < blockMinFeeRate_GetFee M packageSize
               then Inr (FeeTooLow, (A, L1))
               else if \<not> TestPackage M A packageSize packageSigOpsCost
               then
                 (let L2 = (forget_failed M fUsingModified it L1)
                             \<lparr>nConsecutiveFailed := nConsecutiveFailed L1 + 1\<rparr>
                  in if nConsecutiveFailed L2 > MAX_CONSECUTIVE_FAILURES \<and>
                        nBlockWeight A > nBlockMaxWeight A - 4000
                     then Inr (GaveUp, (A, L2))
                     else Inr (PackageFailed, (A, L2)))
               else
                 (let ancestors =
                        set_insert (CompareIteratorByHash M) it
                          (onlyUnconfirmed A (CalculateMemPoolAncestors M it))
                  in if \<not> TestPackageTransactions M A ancestors
                     then Inr (TransactionsFailed, (A, forget_failed M fUsingModified it L1))
                     else Inr (Admitted, admit_package M ancestors (A, L1)))))"

text \<open>
  The loop. It is defined as a partial function: \<open>None\<close> stands for a run that never
  leaves the loop.
\<close>

partial_function (option) addPackageTxs_loop ::
  "mempool_env \<Rightarrow> BlockAssembler \<times> package_loop
     \<Rightarrow> (fault + (BlockAssembler \<times> package_loop)) option" where
  "addPackageTxs_loop M s =
     (if mi (snd s) = [] \<and> mapModifiedTx (snd s) = [] then Some (Inr s)
      else
        (case addPackageTxs_step M s of
           Inl f \<Rightarrow> Some (Inl f)
         | Inr (r, s') \<Rightarrow> if continues r then addPackageTxs_loop M s' else Some (Inr s')))"

definition addPackageTxs ::
  "mempool_env \<Rightarrow> BlockAssembler \<Rightarrow> (fault + (BlockAssembler \<times> package_loop)) option" where
  "addPackageTxs M A =
     addPackageTxs_loop M
       (A, \<lparr>mi = mapTx_ancestor_score M,
            mapModifiedTx = snd (UpdatePackagesForAdded M (inBlock A) []),
            failedTx = [], nConsecutiveFailed = 0,
            nPackagesSelected = 0, nDescendantsUpdated = 0\<rparr>)"

text \<open>
  The first iterations of the loop, at most as many as the first argument says, with
  the way each of them ended.
\<close>

fun loop_trace ::
  "mempool_env \<Rightarrow> nat \<Rightarrow> BlockAssembler \<times> package_loop
     \<Rightarrow> fault + (step_result list \<times> (BlockAssembler \<times> package_loop))" where
  "loop_trace M 0 s = Inr ([], s)"
| "loop_trace M (Suc n) s =
     (if mi (snd s) = [] \<and> mapModifiedTx (snd s) = [] then Inr ([], s)
      else
        (case addPackageTxs_step M s of
           Inl f \<Rightarrow> Inl f
         | Inr (r, s') \<Rightarrow>
             if continues r
             then (case loop_trace M n s' of
                     Inl f \<Rightarrow> Inl f
                   | Inr (rs, s'') \<Rightarrow> Inr (r # rs, s''))
             else Inr ([r], s')))"

text \<open>
  The failures that a sequence of iterations leaves in the counter: an admitted package
  resets it, a failed \<^verbatim>\<open>TestPackage\<close> adds one.
\<close>

fun failures_after :: "step_result list \<Rightarrow> int \<Rightarrow> int" where
  "failures_after [] c = c"
| "failures_after (r # rs) c =
     failures_after rs
       (if r = Admitted then 0 else if r = PackageFailed \<or> r = GaveUp then c + 1 else c)"

section \<open>Block templates\<close>

record CBlockTemplate =
  block :: CBlock
  vTxFees :: "CAmount list"
  vTxSigOpsCost :: "int list"
  vchCoinbaseCommitment :: "byte list"

text \<open>
  The chain state and the functions of other files that \<^verbatim>\<open>CreateNewBlock\<close> and
  \<^verbatim>\<open>UpdateTime\<close> call. \<open>GenerateCoinbaseCommitment\<close> returns the commitment and the
  block, whose coinbase it may extend; \<open>arg_blockversion\<close> is
  \<^verbatim>\<open>gArgs.GetArg("-blockversion", default)\<close>; \<open>locktime_median_time_past\<close> is the test
  \<^verbatim>\<open>STANDARD_LOCKTIME_VERIFY_FLAGS & LOCKTIME_MEDIAN_TIME_PAST\<close>.
\<close>

record node_env =
  chainActive_Tip :: pindex
  ComputeBlockVersion :: "pindex \<Rightarrow> int"
  MineBlocksOnDemand :: bool
  arg_blockversion :: "int \<Rightarrow> int"
  GetAdjustedTime :: int
  GetMedianTimePast :: "pindex \<Rightarrow> int"
  locktime_median_time_past :: bool
  IsWitnessEnabled :: "pindex \<Rightarrow> bool"
  GetBlockSubsidyHive :: CAmount
  GetBlockSubsidyPopPrivate :: CAmount
  GetBlockSubsidyPopPublic :: CAmount
  GetBlockSubsidyPow :: "int \<Rightarrow> CAmount"
  GenerateCoinbaseCommitment :: "CBlock \<Rightarrow> pindex \<Rightarrow> byte list \<times> CBlock"
  GetLegacySigOpCount :: "CTransaction \<Rightarrow> int"
  TestBlockValidity :: "CBlock \<Rightarrow> pindex \<Rightarrow> bool"
  OP_0 :: byte

text \<open>
  \<^verbatim>\<open>UpdateTime\<close>: the block with its time raised to the new time, and the difference
  that the function returns.
\<close>

definition UpdateTime :: "node_env \<Rightarrow> CBlock \<Rightarrow> pindex \<Rightarrow> CBlock \<times> int" where
  "UpdateTime N pblock pindexPrev =
     (let nOldTime = uint (hdr_nTime pblock);
          nNewTime = max (GetMedianTimePast N pindexPrev + 1) (GetAdjustedTime N)
      in ((if nOldTime < nNewTime then pblock\<lparr>hdr_nTime := word_of_int nNewTime\<rparr> else pblock),
          nNewTime - nOldTime))"

text \<open>The three coinbase transactions of \<^verbatim>\<open>CreateNewBlock\<close>, lines 178 to 235.\<close>

definition coinbase_script :: "script_env \<Rightarrow> node_env \<Rightarrow> int \<Rightarrow> CScript" where
  "coinbase_script S N nHeight' = push_int64 S nHeight' @ [OP_0 N]"

definition hive_coinbase ::
  "script_env \<Rightarrow> node_env \<Rightarrow> int \<Rightarrow> CAmount \<Rightarrow> CScript \<Rightarrow> CScript \<Rightarrow> CTransaction" where
  "hive_coinbase S N nHeight' fees scriptPubKeyIn hiveProofScript =
     \<lparr>vin = [\<lparr>prevout = None, scriptSig = coinbase_script S N nHeight'\<rparr>],
      vout = [\<lparr>nValue = 0, scriptPubKey = hiveProofScript\<rparr>,
              \<lparr>nValue = fees + GetBlockSubsidyHive N, scriptPubKey = scriptPubKeyIn\<rparr>]\<rparr>"

definition pop_coinbase ::
  "hive_env \<Rightarrow> script_env \<Rightarrow> node_env \<Rightarrow> int \<Rightarrow> CAmount \<Rightarrow> CScript \<Rightarrow> CScript
     \<Rightarrow> fault + CTransaction" where
  "pop_coinbase E S N nHeight' fees scriptPubKeyIn popProofScript =
     (if \<not> 36 < length popProofScript then Inl OutOfRange
      else
        let isPrivate = (popProofScript ! 36 = OP_TRUE E);
            subsidy = (if isPrivate then GetBlockSubsidyPopPrivate N
                       else GetBlockSubsidyPopPublic N)
        in Inr \<lparr>vin = [\<lparr>prevout = None, scriptSig = coinbase_script S N nHeight'\<rparr>],
                vout = [\<lparr>nValue = 0, scriptPubKey = popProofScript\<rparr>,
                        \<lparr>nValue = fees + subsidy, scriptPubKey = scriptPubKeyIn\<rparr>]\<rparr>)"

definition pow_coinbase ::
  "script_env \<Rightarrow> node_env \<Rightarrow> int \<Rightarrow> CAmount \<Rightarrow> CScript \<Rightarrow> CTransaction" where
  "pow_coinbase S N nHeight' fees scriptPubKeyIn =
     \<lparr>vin = [\<lparr>prevout = None, scriptSig = coinbase_script S N nHeight'\<rparr>],
      vout = [\<lparr>nValue = fees + GetBlockSubsidyPow N nHeight', scriptPubKey = scriptPubKeyIn\<rparr>]\<rparr>"

definition new_coinbase ::
  "hive_env \<Rightarrow> script_env \<Rightarrow> node_env \<Rightarrow> int \<Rightarrow> CAmount \<Rightarrow> CScript
     \<Rightarrow> CScript option \<Rightarrow> CScript option \<Rightarrow> fault + CTransaction" where
  "new_coinbase E S N nHeight' fees scriptPubKeyIn hiveProofScript popProofScript =
     (case hiveProofScript of
        Some h \<Rightarrow> Inr (hive_coinbase S N nHeight' fees scriptPubKeyIn h)
      | None \<Rightarrow>
          (case popProofScript of
             Some p \<Rightarrow> pop_coinbase E S N nHeight' fees scriptPubKeyIn p
           | None \<Rightarrow> Inr (pow_coinbase S N nHeight' fees scriptPubKeyIn)))"

text \<open>Lines 243 to 250: the difficulty bits of the mode.\<close>

definition new_nBits ::
  "hive_env \<Rightarrow> pindex \<Rightarrow> CBlock \<Rightarrow> Params \<Rightarrow> CScript option \<Rightarrow> CScript option
     \<Rightarrow> fault + uint32" where
  "new_nBits E pindexPrev pblock P hiveProofScript popProofScript =
     (if hiveProofScript \<noteq> None
      then GetNextHiveWorkRequired (SetCompact E) (GetCompact E) pindexPrev P
      else if popProofScript \<noteq> None then Inr (GetCompact E (powLimit P))
      else GetNextWorkRequired (SetCompact E) (GetCompact E) pindexPrev pblock P)"

text \<open>
  The assembler state before package selection: lines 118 to 166.
\<close>

definition prepare_assembler ::
  "node_env \<Rightarrow> BlockAssembler \<Rightarrow> pindex \<Rightarrow> uint32 \<Rightarrow> CScript option \<Rightarrow> CScript option
     \<Rightarrow> BlockAssembler" where
  "prepare_assembler N A pindexPrev nTime0 hiveProofScript popProofScript =
     (resetBlock A)
       \<lparr>sel_vtx := [], sel_vTxFees := [], sel_vTxSigOpsCost := [],
        asm_nHeight := nHeight (hd pindexPrev) + 1,
        nLockTimeCutoff :=
          (if locktime_median_time_past N then GetMedianTimePast N pindexPrev else uint nTime0),
        fIncludeWitness := IsWitnessEnabled N pindexPrev,
        fIncludeDCTs := \<not> (hiveProofScript \<noteq> None \<or> popProofScript \<noteq> None)\<rparr>"

text \<open>
  \<^verbatim>\<open>CreateNewBlock\<close> up to the validity test. \<open>None\<close> is a package selection that does
  not end; otherwise a fault or the template.
\<close>

definition assemble_template ::
  "hive_env \<Rightarrow> script_env \<Rightarrow> mempool_env \<Rightarrow> node_env \<Rightarrow> Params \<Rightarrow> BlockAssembler \<Rightarrow> CScript
     \<Rightarrow> CScript option \<Rightarrow> CScript option \<Rightarrow> (fault + CBlockTemplate) option" where
  "assemble_template E S M N P A scriptPubKeyIn hiveProofScript popProofScript =
     (if chainActive_Tip N = [] then Some (Inl AssertionFailed)
      else
          let pindexPrev = chainActive_Tip N;
              nVersion0 = ComputeBlockVersion N pindexPrev;
              nVersion = (if MineBlocksOnDemand N then arg_blockversion N nVersion0 else nVersion0);
              nTime0 = (word_of_int (GetAdjustedTime N) :: uint32)
          in
          (case addPackageTxs M (prepare_assembler N A pindexPrev nTime0 hiveProofScript popProofScript) of
             None \<Rightarrow> None
           | Some (Inl f) \<Rightarrow> Some (Inl f)
           | Some (Inr (A1, L1)) \<Rightarrow>
               (case new_coinbase E S N (asm_nHeight A1) (nFees A1) scriptPubKeyIn
                       hiveProofScript popProofScript of
                  Inl f \<Rightarrow> Some (Inl f)
                | Inr coinbaseTx \<Rightarrow>
                    let pblock0 = \<lparr>hdr_nVersion = nVersion, hdr_hashPrevBlock = 0,
                                   hdr_hashMerkleRoot = 0, hdr_nTime = nTime0, hdr_nBits = 0,
                                   hdr_nNonce = 0, vtx = coinbaseTx # sel_vtx A1\<rparr>;
                        commitment = GenerateCoinbaseCommitment N pblock0 pindexPrev;
                        pblock1 = (snd commitment)\<lparr>hdr_hashPrevBlock := phashBlock (hd pindexPrev)\<rparr>;
                        pblock2 = fst (UpdateTime N pblock1 pindexPrev)
                    in
                    (case new_nBits E pindexPrev pblock2 P hiveProofScript popProofScript of
                       Inl f \<Rightarrow> Some (Inl f)
                     | Inr bits \<Rightarrow>
                         (case vtx pblock2 of
                            [] \<Rightarrow> Some (Inl OutOfRange)
                          | tx0 # _ \<Rightarrow>
                              Some (Inr
                                \<lparr>block = pblock2
                                   \<lparr>hdr_nBits := bits,
                                    hdr_nNonce :=
                                      (if hiveProofScript \<noteq> None then hiveNonceMarker P
                                       else if popProofScript \<noteq> None then popNonceMarker P
                                       else 0)\<rparr>,
                                 vTxFees = - nFees A1 # sel_vTxFees A1,
                                 vTxSigOpsCost =
                                   WITNESS_SCALE_FACTOR M * GetLegacySigOpCount N tx0
                                     # sel_vTxSigOpsCost A1,
                                 vchCoinbaseCommitment = fst commitment\<rparr>))))))"

text \<open>
  \<^verbatim>\<open>CreateNewBlock\<close>: \<open>Inr None\<close> is the null template, \<open>Inl runtime_error\<close> the
  exception of line 264.
\<close>

definition CreateNewBlock ::
  "hive_env \<Rightarrow> script_env \<Rightarrow> mempool_env \<Rightarrow> node_env \<Rightarrow> Params \<Rightarrow> BlockAssembler \<Rightarrow> CScript
     \<Rightarrow> CScript option \<Rightarrow> CScript option \<Rightarrow> (fault + CBlockTemplate option) option" where
  "CreateNewBlock E S M N P A scriptPubKeyIn hiveProofScript popProofScript =
     (case assemble_template E S M N P A scriptPubKeyIn hiveProofScript popProofScript of
        None \<Rightarrow> None
      | Some (Inl f) \<Rightarrow> Some (Inl f)
      | Some (Inr pblocktemplate) \<Rightarrow>
          if \<not> TestBlockValidity N (block pblocktemplate) (chainActive_Tip N)
          then (if popProofScript \<noteq> None then Some (Inr None) else Some (Inl runtime_error))
          else Some (Inr (Some pblocktemplate)))"

section \<open>Concrete inputs\<close>

definition test_params :: Params where
  "test_params = \<lparr>powLimit = 2 ^ 236 - 1, powLimitInitialDistribution = 2 ^ 252 - 1, powLimitHive = 2 ^ 244 - 1,
     lastInitialDistributionHeight = 10, fPowAllowMinDifficultyBlocks = False, nPowTargetSpacing = 150,
     hiveDifficultyWindow = 24, minHiveCheckBlock = 0, hiveBlockSpacingTarget = 2, slowStartBlocks = 5,
     maxConsecutiveHiveBlocks = 2, dwarfCreationAddress = ''dwarf'', hiveCommunityAddress = ''community'',
     communityContribFactor = 10, dwarfGestationBlocks = 12, dwarfLifespanBlocks = 1000, dwarfCost = 10000,
     hiveNonceMarker = 192, popNonceMarker = 208\<rparr>"

definition blk :: "int \<Rightarrow> uint32 \<Rightarrow> CBlockIndex" where
  "blk h n = \<lparr>nHeight = h, nTime = word_of_int (150 * h), nBits = 0x1e0ffff0, nNonce = n, phashBlock = word_of_int h\<rparr>"

text \<open>A chain of 25 PoW blocks, 150 seconds apart.\<close>

definition pow_blocks24 :: "CBlockIndex list" where
  "pow_blocks24 = map (\<lambda>h. blk h 0)
     [24, 23, 22, 21, 20, 19, 18, 17, 16, 15, 14, 13, 12, 11, 10, 9, 8, 7, 6, 5, 4, 3, 2, 1]"

definition pow_chain25 :: pindex where
  "pow_chain25 = pow_blocks24 @ [blk 0 0]"

definition mixed_chain5 :: pindex where
  "mixed_chain5 = [blk 4 192, blk 3 0, blk 2 192, blk 1 0, blk 0 0]"

text \<open>
  Stand-ins for the compact encoding, used only where a closed instance needs values for
  the parameters \<open>SetCompact\<close> and \<open>GetCompact\<close>.
\<close>

definition toy_SetCompact :: "uint32 \<Rightarrow> arith_uint256" where
  "toy_SetCompact n = ucast n"

definition toy_GetCompact :: "arith_uint256 \<Rightarrow> uint32" where
  "toy_GetCompact t = ucast t"

definition test_pow_bits :: uint32 where
  "test_pow_bits = toy_GetCompact (min (powLimit test_params)
        (pow_target_sum toy_SetCompact test_params pow_blocks24
           * word_of_int (clamp_timespan test_params
                (GetBlockTime (hd pow_blocks24) - GetBlockTime (blk 0 0)))
           div word_of_int (24 * nPowTargetSpacing test_params)))"


text \<open>
  A Hive block on top of \<open>pow_chain25\<close>: the proof script claims dwarf 5 of a DCT
  at height 10 with a community contribution; the DCT paid 90000 to the creation address
  and 10000 to the community fund. The cryptographic parameters are stand-ins.
\<close>

definition reward_script :: CScript where "reward_script = [1, 2, 3]"

definition dct_script :: CScript where "dct_script = [4, 5, 6]"

definition cf_script :: CScript where "cf_script = [7, 8, 9]"

definition bcf_script :: CScript where "bcf_script = [10, 11, 12]"

definition test_proof_script :: CScript where
  "test_proof_script =
     [0x6a, 0xc1, 4, 5, 0, 0, 0, 4, 10, 0, 0, 0, 0x51, 64] @ replicate 64 0x61 @ [65] @ replicate 65 1"

definition test_coinbase :: CTransaction where
  "test_coinbase = \<lparr>vin = [\<lparr>prevout = None, scriptSig = [1, 25, 0]\<rparr>],
     vout = [\<lparr>nValue = 0, scriptPubKey = test_proof_script\<rparr>,
             \<lparr>nValue = 5000, scriptPubKey = reward_script\<rparr>]\<rparr>"

definition test_block :: CBlock where
  "test_block = \<lparr>hdr_nVersion = 1, hdr_hashPrevBlock = 24, hdr_hashMerkleRoot = 0, hdr_nTime = 3750,
     hdr_nBits = 0, hdr_nNonce = 192, vtx = [test_coinbase]\<rparr>"

definition test_utxo :: "COutPoint \<Rightarrow> Coin option" where
  "test_utxo outpoint =
     (if snd outpoint = 0
      then Some \<lparr>out = \<lparr>nValue = 90000, scriptPubKey = dct_script\<rparr>, coin_nHeight = 10\<rparr>
      else if snd outpoint = 1
      then Some \<lparr>out = \<lparr>nValue = 10000, scriptPubKey = cf_script\<rparr>, coin_nHeight = 10\<rparr>
      else None)"

definition test_env :: hive_env where
  "test_env = \<lparr>
     mapBlockIndex = (\<lambda>h. if h = 24 then pow_chain25 else []),
     pcoinsTip = Some test_utxo,
     GetTxByHashAndHeight = (\<lambda>h n p. None),
     GetScriptForDestination = (\<lambda>a. if a = ''community'' then cf_script else bcf_script),
     IsDCT = (\<lambda>tx s. False),
     IsDCTScript = (\<lambda>s bcf. if s = dct_script \<and> bcf = bcf_script then Some reward_script else None),
     IsCoinBase = (\<lambda>tx. length (vin tx) = 1 \<and> prevout (hd (vin tx)) = None),
     ExtractDestination = (\<lambda>s. if s = reward_script then Some (KeyID 1) else None),
     IsValidDestination = (\<lambda>d. d \<noteq> CNoDestination),
     GetDeterministicRandString = (\<lambda>p. [0x72]),
     MinotaurHashArbitrary = (\<lambda>s. 0),
     GetHex = (\<lambda>h. [0x30]),
     to_string = (\<lambda>n. [0x35]),
     uint256S = (\<lambda>s. 1),
     HashString = (\<lambda>s. 2),
     RecoverCompact = (\<lambda>h sig. Some [3]),
     GetID = (\<lambda>k. 1),
     SetCompact = toy_SetCompact,
     GetCompact = toy_GetCompact,
     OP_RETURN = 0x6a,
     OP_DWARF = 0xc1,
     OP_TRUE = 0x51\<rparr>"

text \<open>
  The test block and the test node with the dwarf nonce, the community flag, the value
  of the DCT output and the donation as parameters.
\<close>

definition proof_script_of :: "byte \<Rightarrow> byte \<Rightarrow> CScript" where
  "proof_script_of nonce contrib =
     [0x6a, 0xc1, 4, nonce, 0, 0, 0, 4, 10, 0, 0, 0, contrib, 64]
       @ replicate 64 0x61 @ [65] @ replicate 65 1"

definition coinbase_of :: "byte \<Rightarrow> byte \<Rightarrow> CTransaction" where
  "coinbase_of nonce contrib = \<lparr>vin = [\<lparr>prevout = None, scriptSig = [1, 25, 0]\<rparr>],
     vout = [\<lparr>nValue = 0, scriptPubKey = proof_script_of nonce contrib\<rparr>,
             \<lparr>nValue = 5000, scriptPubKey = reward_script\<rparr>]\<rparr>"

definition block_of :: "byte \<Rightarrow> byte \<Rightarrow> CBlock" where
  "block_of nonce contrib = test_block\<lparr>vtx := [coinbase_of nonce contrib]\<rparr>"

definition utxo_of :: "CAmount \<Rightarrow> CAmount \<Rightarrow> COutPoint \<Rightarrow> Coin option" where
  "utxo_of v d outpoint =
     (if snd outpoint = 0
      then Some \<lparr>out = \<lparr>nValue = v, scriptPubKey = dct_script\<rparr>, coin_nHeight = 10\<rparr>
      else if snd outpoint = 1
      then Some \<lparr>out = \<lparr>nValue = d, scriptPubKey = cf_script\<rparr>, coin_nHeight = 10\<rparr>
      else None)"

definition env_of :: "CAmount \<Rightarrow> CAmount \<Rightarrow> hive_env" where
  "env_of v d = test_env\<lparr>pcoinsTip := Some (utxo_of v d)\<rparr>"

definition context_of :: "CAmount \<Rightarrow> byte \<Rightarrow> byte \<Rightarrow> hive_proof" where
  "context_of v nonce contrib =
     \<lparr>hp_pindexPrev = pow_chain25, hp_blockHeight = 25, hp_dwarfNonce = ucast nonce,
      hp_dctClaimedHeight = 10, hp_communityContrib = (contrib = 0x51),
      hp_txidStr = replicate 64 0x61, hp_rewardDestination = KeyID 1, hp_dctValue = v,
      hp_dctScriptPubKey = dct_script, hp_dctFoundHeight = 10, hp_dct = None\<rparr>"

definition test_script_env :: script_env where
  "test_script_env = \<lparr>push_int64 = (\<lambda>n. [1, word_of_int n]),
     push_CScriptNum = (\<lambda>n. [1, word_of_int n]),
     COINBASE_FLAGS = [0x2f, 0x52, 0x2f],
     BlockMerkleRoot = (\<lambda>b. of_nat (length (scriptSig (hd (vin (hd (vtx b)))))))\<rparr>"

definition test_block_nonce :: "byte \<Rightarrow> CBlock" where
  "test_block_nonce k = test_block\<lparr>hdr_hashMerkleRoot := 7,
     vtx := [test_coinbase\<lparr>vin := [\<lparr>prevout = None, scriptSig = [1, 25, 1, k, 0x2f, 0x52, 0x2f]\<rparr>]\<rparr>]\<rparr>"

text \<open>
  A mempool of two unrelated transactions of 500 bytes, and an assembler whose block is
  1000 weight units below the maximum weight.
\<close>

definition test_entry :: CTxMemPoolEntry where
  "test_entry = \<lparr>GetSharedTx = test_coinbase, GetTxSize = 500, GetTxWeight = 2000,
     GetFee = 100000, GetModifiedFee = 100000, GetSigOpCost = 4,
     GetSizeWithAncestors = 500, GetModFeesWithAncestors = 100000,
     GetSigOpCostWithAncestors = 4\<rparr>"

definition test_mempool :: "txiter list \<Rightarrow> mempool_env" where
  "test_mempool index = \<lparr>mapTx = (\<lambda>it. test_entry),
     mapTx_ancestor_score = index,
     CalculateMemPoolAncestors = (\<lambda>it. []),
     CalculateDescendants = (\<lambda>it. [it]),
     CompareTxMemPoolEntryByAncestorFee =
       (\<lambda>a b. nModFeesWithAncestors a * nSizeWithAncestors b
                > nModFeesWithAncestors b * nSizeWithAncestors a),
     CompareTxIterByAncestorCount = (<),
     CompareIteratorByHash = (<),
     update_for_parent_inclusion = (\<lambda>it e. e),
     blockMinFeeRate_GetFee = (\<lambda>size. size),
     IsFinalTx = (\<lambda>tx h t. True),
     HasWitness = (\<lambda>tx. False),
     tx_IsDCT = (\<lambda>tx. False),
     WITNESS_SCALE_FACTOR = 4,
     MAX_BLOCK_SIGOPS_COST = 80000,
     MAX_BLOCK_WEIGHT = 4000000\<rparr>"

definition test_assembler :: "int \<Rightarrow> BlockAssembler" where
  "test_assembler w = \<lparr>inBlock = [], nBlockWeight = w, nBlockSigOpsCost = 400,
     fIncludeWitness = True, fIncludeDCTs = True, nBlockTx = 0, nFees = 0,
     nBlockMaxWeight = 3996000, asm_nHeight = 25, nLockTimeCutoff = 0,
     sel_vtx = [], sel_vTxFees = [], sel_vTxSigOpsCost = []\<rparr>"

definition test_loop :: "txiter list \<Rightarrow> int \<Rightarrow> package_loop" where
  "test_loop index failed = \<lparr>mi = index, mapModifiedTx = [], failedTx = [],
     nConsecutiveFailed = failed, nPackagesSelected = 0, nDescendantsUpdated = 0\<rparr>"

definition test_node :: node_env where
  "test_node = \<lparr>chainActive_Tip = pow_chain25,
     ComputeBlockVersion = (\<lambda>p. 536870912),
     MineBlocksOnDemand = False,
     arg_blockversion = (\<lambda>v. v),
     GetAdjustedTime = 3750,
     GetMedianTimePast = (\<lambda>p. 3000),
     locktime_median_time_past = True,
     IsWitnessEnabled = (\<lambda>p. True),
     GetBlockSubsidyHive = 5000,
     GetBlockSubsidyPopPrivate = 3000,
     GetBlockSubsidyPopPublic = 2000,
     GetBlockSubsidyPow = (\<lambda>h. 10000),
     GenerateCoinbaseCommitment = (\<lambda>b p. ([], b)),
     GetLegacySigOpCount = (\<lambda>tx. 0),
     TestBlockValidity = (\<lambda>b p. False),
     OP_0 = 0\<rparr>"

section \<open>Arithmetic of the machine types\<close>

lemma conv_uint32_small: "0 \<le> x \<Longrightarrow> x < 2 ^ 32 \<Longrightarrow> conv_uint32 x = word_of_int x"
proof -
  assume a: "0 \<le> x" "x < 2 ^ 32"
  have "uint (word_of_int x :: 32 word) = x"
    using a by (simp add: uint_word_of_int)
  then show ?thesis
    unfolding conv_uint32_def by (simp only: ucast_eq)
qed

lemma conv_uint64_small: "0 \<le> x \<Longrightarrow> x < 2 ^ 64 \<Longrightarrow> conv_uint64 x = word_of_int x"
proof -
  assume a: "0 \<le> x" "x < 2 ^ 64"
  have "uint (word_of_int x :: 64 word) = x"
    using a by (simp add: uint_word_of_int)
  then show ?thesis
    unfolding conv_uint64_def by (simp only: ucast_eq)
qed

lemma conv24: "conv_uint64 24 = 24"
  by (simp add: conv_uint64_small)

lemma word256_of_int_nonzero:
  assumes "0 < x" "x < 2 ^ 64"
  shows "(word_of_int x :: 256 word) \<noteq> 0"
proof -
  have "(2::int) ^ 64 \<le> 2 ^ 256" by simp
  with assms have "x < 2 ^ 256" by linarith
  with assms have "x mod 2 ^ 256 = x" by simp
  then have "uint (word_of_int x :: 256 word) = x"
    by (simp add: uint_word_of_int)
  with assms show ?thesis by auto
qed

lemma cdiv_nonneg: "0 \<le> a \<Longrightarrow> 0 < b \<Longrightarrow> cdiv a b = a div b"
  by (cases "a = 0") (simp_all add: cdiv_def)

lemma cdiv_mult_self: "f \<noteq> 0 \<Longrightarrow> cdiv (d * f) f = d"
proof -
  assume f: "f \<noteq> 0"
  have "\<bar>d * f\<bar> div \<bar>f\<bar> = \<bar>d\<bar>" using f by (simp add: abs_mult)
  moreover have "sgn (d * f) * sgn f = sgn d" using f by (simp add: sgn_mult mult.assoc)
  moreover have "sgn d * \<bar>d\<bar> = d" by (rule sgn_mult_abs)
  ultimately show ?thesis by (simp add: cdiv_def)
qed

lemma div_eq_iff_bounds:
  fixes a :: int
  assumes "0 < f"
  shows "d = a div f \<longleftrightarrow> d * f \<le> a \<and> a < d * f + f"
proof
  assume "d = a div f"
  then show "d * f \<le> a \<and> a < d * f + f"
    using assms
    by (metis add.commute mult.commute pos_mod_bound pos_mod_sign
        add_le_cancel_left add_less_cancel_left le_add_same_cancel2 mult_div_mod_eq)
next
  assume "d * f \<le> a \<and> a < d * f + f"
  then show "d = a div f"
    using assms by (intro int_div_pos_eq[symmetric, of a f d "a - d * f"]) (auto simp: algebra_simps)
qed

section \<open>Properties of the retargeting\<close>

lemma skip_hivemined_append:
  "\<forall>b\<in>set hs. IsHiveMined b P \<Longrightarrow> \<not> IsHiveMined b P
     \<Longrightarrow> skip_hivemined P (hs @ b # r) = Inr (b # r)"
  by (induction hs) auto

lemma past_target_loop_append:
  "length (filter (\<lambda>b. \<not> IsHiveMined b P) pre) = k
   \<Longrightarrow> pre = [] \<or> \<not> IsHiveMined (last pre) P
   \<Longrightarrow> rest \<noteq> []
   \<Longrightarrow> past_target_loop S P k (pre @ rest) acc = Inr (acc + pow_target_sum S P pre, rest)"
proof (induction k arbitrary: pre acc)
  case 0
  then have "pre = []"
    by (cases pre rule: rev_cases) (auto simp: filter_empty_conv)
  then show ?case by (simp add: pow_target_sum_def)
next
  case (Suc k)
  let ?hive = "\<lambda>b. IsHiveMined b P"
  from Suc.prems(1) have "filter (\<lambda>b. \<not> ?hive b) pre \<noteq> []" by auto
  then obtain x where x: "x \<in> set pre" "\<not> ?hive x"
    by (auto simp: filter_empty_conv)
  define hs where "hs = takeWhile ?hive pre"
  define tl' where "tl' = dropWhile ?hive pre"
  have split: "pre = hs @ tl'" by (simp add: hs_def tl'_def)
  have "tl' \<noteq> []" using x by (auto simp: tl'_def dropWhile_eq_Nil_conv)
  then obtain b pre2 where t: "tl' = b # pre2" by (cases tl') auto
  have nb: "\<not> ?hive b"
    using hd_dropWhile[of ?hive pre] t x by (auto simp: tl'_def)
  have hsh: "\<forall>b\<in>set hs. ?hive b"
    by (auto simp: hs_def dest: set_takeWhileD)
  have pre: "pre = hs @ b # pre2" using split t by simp
  have fl: "filter (\<lambda>b. \<not> ?hive b) pre = b # filter (\<lambda>b. \<not> ?hive b) pre2"
    using hsh nb by (simp add: pre filter_empty_conv)
  then have k: "length (filter (\<lambda>b. \<not> ?hive b) pre2) = k"
    using Suc.prems(1) by simp
  have l: "pre2 = [] \<or> \<not> ?hive (last pre2)"
    using Suc.prems(2) by (auto simp: pre)
  have sk: "skip_hivemined P (pre @ rest) = Inr (b # pre2 @ rest)"
    using skip_hivemined_append[OF hsh nb, of "pre2 @ rest"] by (simp add: pre)
  have ne: "pre2 @ rest \<noteq> []" using Suc.prems(3) by simp
  have sum: "pow_target_sum S P pre = S (nBits b) div 24 + pow_target_sum S P pre2"
    by (simp add: pow_target_sum_def fl)
  show ?case
    using Suc.IH[OF k l Suc.prems(3), of "acc + S (nBits b) div 24"] ne
    by (simp add: sk sum conv24 add.assoc)
qed

lemma retarget_value:
  assumes sp: "0 < nPowTargetSpacing P" "72 * nPowTargetSpacing P < 2 ^ 32"
  shows "retarget G P avg t =
     Inr (G (min (powLimit P)
        (avg * word_of_int (clamp_timespan P t) div word_of_int (24 * nPowTargetSpacing P))))"
proof -
  let ?tt = "24 * nPowTargetSpacing P"
  have tt: "0 < ?tt" "?tt * 3 < 2 ^ 32" "?tt < 2 ^ 64" using sp by auto
  have r: "in_int64 ?tt" "in_int64 (?tt * 3)"
    using tt by (auto simp: in_int64_def)
  have cd: "cdiv ?tt 3 = ?tt div 3" using tt by (intro cdiv_nonneg) auto
  have lo: "0 \<le> ?tt div 3" using tt by simp
  have le: "?tt div 3 \<le> ?tt * 3" using tt by linarith
  have cl: "(if (if t < ?tt div 3 then ?tt div 3 else t) > ?tt * 3 then ?tt * 3
             else (if t < ?tt div 3 then ?tt div 3 else t)) = clamp_timespan P t"
    using le by (auto simp: clamp_timespan_def max_def min_def)
  have rng: "0 \<le> clamp_timespan P t" "clamp_timespan P t < 2 ^ 32"
    using lo le tt by (auto simp: clamp_timespan_def max_def min_def)
  have c32: "conv_uint32 (clamp_timespan P t) = word_of_int (clamp_timespan P t)"
    using rng by (rule conv_uint32_small)
  have c64: "conv_uint64 ?tt = word_of_int ?tt"
    using tt by (intro conv_uint64_small) auto
  have nz: "(word_of_int ?tt :: 256 word) \<noteq> 0"
    using tt by (intro word256_of_int_nonzero) auto
  show ?thesis
    unfolding retarget_def Let_def cd cl c32 c64
    using r nz by (auto simp: min_def)
qed

lemma GetNextWorkRequired_value:
  assumes chain: "pindexLast = hs @ pre @ oldest # rest"
    and hs: "\<forall>b\<in>set hs. IsHiveMined b P"
    and pre: "\<not> IsHiveMined (hd pre) P" "\<not> IsHiveMined (last pre) P"
             "length (filter (\<lambda>b. \<not> IsHiveMined b P) pre) = 24"
    and height: "lastInitialDistributionHeight P \<le> nHeight (hd pindexLast)"
    and nomin: "\<not> (fPowAllowMinDifficultyBlocks P \<and>
                   GetBlockTime (hd pindexLast) + nPowTargetSpacing P * 10 < uint (hdr_nTime pblock))"
    and sp: "0 < nPowTargetSpacing P" "72 * nPowTargetSpacing P < 2 ^ 32"
  shows "GetNextWorkRequired S G pindexLast pblock P =
     Inr (G (min (powLimit P)
        (pow_target_sum S P pre
           * word_of_int (clamp_timespan P (GetBlockTime (hd pre) - GetBlockTime oldest))
           div word_of_int (24 * nPowTargetSpacing P))))"
proof -
  from pre(3) have pne: "pre \<noteq> []" by auto
  then obtain newest pre' where p: "pre = newest # pre'" by (cases pre) auto
  have nn: "\<not> IsHiveMined newest P" using pre(1) p by simp
  have ne: "pindexLast \<noteq> []" using chain by simp
  then obtain tip tl0 where tip: "pindexLast = tip # tl0" by (cases pindexLast) auto
  have sk: "skip_hivemined P pindexLast = Inr (pre @ oldest # rest)"
    using skip_hivemined_append[OF hs nn, of "pre' @ oldest # rest"] by (simp add: chain p)
  have lp: "past_target_loop S P 24 (pre @ oldest # rest) 0 =
              Inr (pow_target_sum S P pre, oldest # rest)"
    using past_target_loop_append[OF pre(3) disjI2[OF pre(2)], of "oldest # rest" S 0] by simp
  have t0: "0 \<le> GetBlockTime tip" "GetBlockTime tip < 2 ^ 32"
    using uint_bounded[of "nTime tip"] by (simp_all add: GetBlockTime_def)
  have i64: "in_int64 (GetBlockTime tip + nPowTargetSpacing P * 10)"
    using t0 sp by (simp add: in_int64_def)
  have nomin': "\<not> (fPowAllowMinDifficultyBlocks P \<and>
                   GetBlockTime tip + nPowTargetSpacing P * 10 < uint (hdr_nTime pblock))"
    using nomin tip by simp
  have h': "\<not> nHeight tip < lastInitialDistributionHeight P"
    using height tip by simp
  have sk': "skip_hivemined P (tip # tl0) = Inr (newest # pre' @ oldest # rest)"
    using sk by (simp add: tip p)
  have lp': "past_target_loop S P 24 (newest # pre' @ oldest # rest) 0 =
              Inr (pow_target_sum S P pre, oldest # rest)"
    using lp by (simp add: p)
  have "GetNextWorkRequired S G pindexLast pblock P =
          retarget G P (pow_target_sum S P pre) (GetBlockTime newest - GetBlockTime oldest)"
    unfolding GetNextWorkRequired_def tip
    using i64 nomin' h'
    by (auto simp add: sk' lp' simp del: skip_hivemined.simps past_target_loop.simps)
  then show ?thesis
    using retarget_value[OF sp] by (simp add: p)
qed



lemma hive_blocks_Cons:
  "hive_blocks P (b # bs) = (if IsHiveMined b P then b # hive_blocks P bs else hive_blocks P bs)"
  by (simp add: hive_blocks_def)

lemma hive_target_sum_Cons:
  "hive_target_sum S P (b # bs) =
     (if IsHiveMined b P then S (nBits b) + hive_target_sum S P bs else hive_target_sum S P bs)"
  by (simp add: hive_target_sum_def hive_blocks_def)

lemma hive_window_loop_run:
  "chain \<noteq> [] \<Longrightarrow>
   \<exists>k<length chain.
      hive_window_loop S P chain t h n =
        Inr (t + hive_target_sum S P (take k chain),
             h + int (length (hive_blocks P (take k chain))), n + int k, drop k chain) \<and>
      (\<forall>i<k. h + int (length (hive_blocks P (take i chain))) < hiveDifficultyWindow P \<and>
              minHiveCheckBlock P \<le> nHeight (chain ! i)) \<and>
      (hiveDifficultyWindow P \<le> h + int (length (hive_blocks P (take k chain))) \<or>
       Suc k = length chain \<or> nHeight (chain ! k) < minHiveCheckBlock P)"
proof (induction chain arbitrary: t h n)
  case Nil
  then show ?case by simp
next
  case (Cons b pprev)
  show ?case
  proof (cases "h < hiveDifficultyWindow P \<and> pprev \<noteq> [] \<and> minHiveCheckBlock P \<le> nHeight b")
    case False
    then show ?thesis
      by (intro exI[of _ 0]) (auto simp: hive_target_sum_def hive_blocks_def)
  next
    case True
    let ?t = "if IsHiveMined b P then t + S (nBits b) else t"
    let ?h = "if IsHiveMined b P then h + 1 else h"
    from True have ne: "pprev \<noteq> []" by simp
    from Cons.IH[OF ne, of ?t ?h "n + 1"] obtain k where k: "k < length pprev"
      and run: "hive_window_loop S P pprev ?t ?h (n + 1) =
        Inr (?t + hive_target_sum S P (take k pprev),
             ?h + int (length (hive_blocks P (take k pprev))), n + 1 + int k, drop k pprev)"
      and before: "\<forall>i<k. ?h + int (length (hive_blocks P (take i pprev))) < hiveDifficultyWindow P \<and>
              minHiveCheckBlock P \<le> nHeight (pprev ! i)"
      and stop: "hiveDifficultyWindow P \<le> ?h + int (length (hive_blocks P (take k pprev))) \<or>
       Suc k = length pprev \<or> nHeight (pprev ! k) < minHiveCheckBlock P"
      by blast
    have eq: "hive_window_loop S P (b # pprev) t h n = hive_window_loop S P pprev ?t ?h (n + 1)"
      using True by simp
    have b2: "h + int (length (hive_blocks P (take i (b # pprev)))) < hiveDifficultyWindow P \<and>
              minHiveCheckBlock P \<le> nHeight ((b # pprev) ! i)" if i: "i < Suc k" for i
    proof (cases i)
      case 0
      then show ?thesis using True by (simp add: hive_blocks_def)
    next
      case (Suc j)
      then have "j < k" using i by simp
      with before show ?thesis
        by (auto simp: Suc hive_blocks_Cons split: if_splits)
    qed
    show ?thesis
      apply (rule exI[of _ "Suc k"])
      apply (intro conjI)
      subgoal using k by simp
      subgoal unfolding eq run by (simp add: hive_blocks_Cons hive_target_sum_Cons add.assoc)
      subgoal using b2 by blast
      subgoal using stop by (auto simp: hive_blocks_Cons split: if_splits)
      done
  qed
qed

lemma hive_blocks_take_Suc:
  "length (hive_blocks P (take (Suc i) xs)) \<le> Suc (length (hive_blocks P (take i xs)))"
proof (cases "i < length xs")
  case True
  then show ?thesis by (simp add: take_Suc_conv_app_nth hive_blocks_def)
next
  case False
  then show ?thesis by simp
qed

lemma hive_retarget_value:
  assumes hb: "0 < hbc" "hbc \<le> hiveDifficultyWindow P"
    and sp: "0 < hiveBlockSpacingTarget P" "hiveDifficultyWindow P * hiveBlockSpacingTarget P < 2 ^ 31"
    and tb: "0 \<le> tbc" "tbc < 2 ^ 31"
    and run: "hive_window_loop S P chain 0 0 0 = Inr (t, hbc, tbc, rest)"
  shows "GetNextHiveWorkRequired S G chain P =
     Inr (G (min (powLimitHive P)
       (t div word_of_int hbc * word_of_int tbc div word_of_int (hbc * hiveBlockSpacingTarget P))))"
proof -
  let ?sp = "hiveBlockSpacingTarget P"
  have pl: "hbc * ?sp \<le> hiveDifficultyWindow P * ?sp"
    using hb sp by (intro mult_right_mono) auto
  have prod: "0 < hbc * ?sp" "hbc * ?sp < 2 ^ 31"
  proof -
    show "0 < hbc * ?sp" using hb sp by simp
    show "hbc * ?sp < 2 ^ 31" using pl sp(2) by linarith
  qed
  have "hbc * 1 \<le> hbc * ?sp" using hb sp by (intro mult_left_mono) auto
  then have hbs: "hbc < 2 ^ 31" using prod by simp
  have i32: "in_int32 (hbc * ?sp)" using prod by (simp add: in_int32_def)
  have c1: "conv_uint64 hbc = word_of_int hbc"
    using hb hbs by (intro conv_uint64_small) auto
  have c2: "conv_uint32 tbc = word_of_int tbc"
    using tb by (intro conv_uint32_small) auto
  have c3: "conv_uint64 (hbc * ?sp) = word_of_int (hbc * ?sp)"
    using prod by (intro conv_uint64_small) auto
  have n1: "(word_of_int hbc :: 256 word) \<noteq> 0"
    using hb hbs by (intro word256_of_int_nonzero) auto
  have n3: "(word_of_int (hbc * ?sp) :: 256 word) \<noteq> 0"
    using prod by (intro word256_of_int_nonzero) auto
  show ?thesis
    unfolding GetNextHiveWorkRequired_def run
    using hb i32 n1 n3 by (auto simp add: c1 c2 c3 Let_def min_def)
qed

text \<open>
  C4 (amended). \<^verbatim>\<open>GetNextHiveWorkRequired\<close> walks back from the tip over \<open>k\<close> blocks and
  stops at the first block where \<open>hiveDifficultyWindow\<close> Hive blocks have been counted, or
  the block has no predecessor, or its height is below \<open>minHiveCheckBlock\<close>; the block it
  stops at is not counted. With no Hive block among the \<open>k\<close> blocks it returns the compact
  form of \<open>powLimitHive\<close>; otherwise the compact form of the sum of the Hive targets
  divided by the Hive count, times \<open>k\<close>, divided by the Hive count times
  \<open>hiveBlockSpacingTarget\<close>, clamped to \<open>powLimitHive\<close>, in 256-bit arithmetic.
\<close>

theorem GetNextHiveWorkRequired_window:
  assumes ne: "pindexLast \<noteq> []"
    and len: "length pindexLast < 2 ^ 31"
    and sp: "0 < hiveBlockSpacingTarget P"
            "hiveDifficultyWindow P * hiveBlockSpacingTarget P < 2 ^ 31"
  shows "\<exists>k<length pindexLast.
      (\<forall>i<k. int (length (hive_blocks P (take i pindexLast))) < hiveDifficultyWindow P \<and>
              minHiveCheckBlock P \<le> nHeight (pindexLast ! i)) \<and>
      (hiveDifficultyWindow P \<le> int (length (hive_blocks P (take k pindexLast))) \<or>
       Suc k = length pindexLast \<or> nHeight (pindexLast ! k) < minHiveCheckBlock P) \<and>
      GetNextHiveWorkRequired S G pindexLast P =
        (if hive_blocks P (take k pindexLast) = [] then Inr (G (powLimitHive P))
         else Inr (G (min (powLimitHive P)
           (hive_target_sum S P (take k pindexLast)
              div of_nat (length (hive_blocks P (take k pindexLast)))
              * of_nat k
              div word_of_int (int (length (hive_blocks P (take k pindexLast)))
                               * hiveBlockSpacingTarget P)))))"
proof -
  from hive_window_loop_run[OF ne, of S P 0 0 0] obtain k where k: "k < length pindexLast"
    and run: "hive_window_loop S P pindexLast 0 0 0 =
        Inr (hive_target_sum S P (take k pindexLast),
             int (length (hive_blocks P (take k pindexLast))), int k, drop k pindexLast)"
    and before: "\<forall>i<k. int (length (hive_blocks P (take i pindexLast))) < hiveDifficultyWindow P \<and>
              minHiveCheckBlock P \<le> nHeight (pindexLast ! i)"
    and stop: "hiveDifficultyWindow P \<le> int (length (hive_blocks P (take k pindexLast))) \<or>
       Suc k = length pindexLast \<or> nHeight (pindexLast ! k) < minHiveCheckBlock P"
    by auto
  let ?hive = "hive_blocks P (take k pindexLast)"
  have val: "GetNextHiveWorkRequired S G pindexLast P =
        (if ?hive = [] then Inr (G (powLimitHive P))
         else Inr (G (min (powLimitHive P)
           (hive_target_sum S P (take k pindexLast) div of_nat (length ?hive) * of_nat k
              div word_of_int (int (length ?hive) * hiveBlockSpacingTarget P)))))"
  proof (cases "?hive = []")
    case True
    then show ?thesis
      unfolding GetNextHiveWorkRequired_def run by simp
  next
    case False
    then have pos: "0 < int (length ?hive)" by simp
    have "k \<noteq> 0" using False by (cases k) (auto simp: hive_blocks_def)
    then obtain j where j: "k = Suc j" by (cases k) auto
    with before have "int (length (hive_blocks P (take j pindexLast))) < hiveDifficultyWindow P"
      by simp
    moreover have "length ?hive \<le> Suc (length (hive_blocks P (take j pindexLast)))"
      unfolding j by (rule hive_blocks_take_Suc)
    ultimately have le: "int (length ?hive) \<le> hiveDifficultyWindow P" by linarith
    have kb: "0 \<le> int k" "int k < 2 ^ 31" using k len by auto
    show ?thesis
      using hive_retarget_value[OF pos le sp kb run, of G] False by simp
  qed
  show ?thesis
    using k before stop val by blast
qed

theorem GetNextHiveWorkRequired_window_witness:
  "\<exists>k<length mixed_chain5.
      (\<forall>i<k. int (length (hive_blocks test_params (take i mixed_chain5)))
                < hiveDifficultyWindow test_params \<and>
              minHiveCheckBlock test_params \<le> nHeight (mixed_chain5 ! i)) \<and>
      (hiveDifficultyWindow test_params \<le> int (length (hive_blocks test_params (take k mixed_chain5))) \<or>
       Suc k = length mixed_chain5 \<or> nHeight (mixed_chain5 ! k) < minHiveCheckBlock test_params) \<and>
      GetNextHiveWorkRequired toy_SetCompact toy_GetCompact mixed_chain5 test_params =
        (if hive_blocks test_params (take k mixed_chain5) = []
         then Inr (toy_GetCompact (powLimitHive test_params))
         else Inr (toy_GetCompact (min (powLimitHive test_params)
           (hive_target_sum toy_SetCompact test_params (take k mixed_chain5)
              div of_nat (length (hive_blocks test_params (take k mixed_chain5)))
              * of_nat k
              div word_of_int (int (length (hive_blocks test_params (take k mixed_chain5)))
                               * hiveBlockSpacingTarget test_params)))))"
proof (rule GetNextHiveWorkRequired_window)
  show "mixed_chain5 \<noteq> []" by (simp add: mixed_chain5_def)
  show "length mixed_chain5 < 2 ^ 31" by (simp add: mixed_chain5_def)
  show "0 < hiveBlockSpacingTarget test_params" by (simp add: test_params_def)
  show "hiveDifficultyWindow test_params * hiveBlockSpacingTarget test_params < 2 ^ 31"
    by (simp add: test_params_def)
qed

text \<open>
  C4 as stated fails: with \<open>minHiveCheckBlock = 0\<close> the walk from a Hive block at height 1
  ends at the genesis block, which has no predecessor, although one Hive block has been
  counted of a window of 24 and the height 0 is not below \<open>minHiveCheckBlock\<close>.
\<close>

theorem hive_window_stops_without_predecessor:
  "hive_window_loop toy_SetCompact test_params [blk 1 192, blk 0 0] 0 0 0 =
     Inr (toy_SetCompact (nBits (blk 1 192)), 1, 1, [blk 0 0]) \<and>
   \<not> hiveDifficultyWindow test_params \<le> 1 \<and>
   \<not> nHeight (blk 0 0) < minHiveCheckBlock test_params"
  by (simp add: test_params_def blk_def IsHiveMined_def)

section \<open>Properties of the Hive proof validator\<close>

lemma obind_Reject:
  "obind m k = Reject r \<longleftrightarrow> m = Reject r \<or> (\<exists>x. m = Pass x \<and> k x = Reject r)"
  by (cases m) auto

lemma require_Reject: "require ok r' = Reject r \<longleftrightarrow> \<not> ok \<and> r = r'"
  by (auto simp: require_def)

lemma of_sum_Reject: "of_sum s \<noteq> Reject r"
  by (cases s) (auto simp: of_sum_def)

lemma prev_index_no_reject: "prev_index E pblock \<noteq> Reject r"
  by (auto simp: prev_index_def Let_def split: list.splits)

lemma coinbase_shape_reject:
  "coinbase_shape E P pblock pindexPrev blockHeight = Reject r \<Longrightarrow> r \<noteq> NoPrevIndex"
  by (auto simp: coinbase_shape_def obind_Reject require_Reject of_sum_Reject split: list.splits)

lemma hash_target_check_reject:
  "hash_target_check E P pindexPrev txidStr dwarfNonce = Reject r \<Longrightarrow> r \<noteq> NoPrevIndex"
  by (auto simp: hash_target_check_def obind_Reject require_Reject of_sum_Reject)

lemma reward_signature_check_reject:
  "reward_signature_check E pindexPrev txCoinbase messageSig = Reject r \<Longrightarrow> r \<noteq> NoPrevIndex"
  by (auto simp: reward_signature_check_def split: option.splits if_splits CTxDestination.splits)

lemma fetch_dct_reject:
  "fetch_dct E pindexPrev txidStr h = Reject r \<Longrightarrow> r \<noteq> NoPrevIndex"
  by (auto simp: fetch_dct_def split: option.splits list.splits)

lemma donation_of_dct_reject: "donation_of_dct cf d = Reject r \<Longrightarrow> r \<noteq> NoPrevIndex"
  by (auto simp: donation_of_dct_def split: if_splits)

lemma find_donation_reject:
  "find_donation E P pindexPrev txidStr h dct = Reject r \<Longrightarrow> r \<noteq> NoPrevIndex"
  by (auto simp: find_donation_def Let_def dest: donation_of_dct_reject
           split: option.splits if_splits)

lemma community_donation_reject:
  "community_donation P v d = Reject r \<Longrightarrow> r \<noteq> NoPrevIndex"
  by (auto simp: community_donation_def Let_def split: if_splits)

lemma dct_checks_reject:
  "dct_checks E P bh ch fh spk rd = Reject r \<Longrightarrow> r \<noteq> NoPrevIndex"
  by (auto simp: dct_checks_def Let_def obind_Reject require_Reject split: option.splits)

lemma dwarf_count_check_reject:
  "dwarf_count_check P v n = Reject r \<Longrightarrow> r \<noteq> NoPrevIndex"
  by (auto simp: dwarf_count_check_def Let_def split: if_splits)

lemma CheckHiveProof_reject_not_NoPrevIndex:
  "CheckHiveProof E pblock P \<noteq> Reject NoPrevIndex"
proof
  assume a: "CheckHiveProof E pblock P = Reject NoPrevIndex"
  then show False
    unfolding CheckHiveProof_def locate_dct_def paid_value_def final_checks_def Let_def
    by (auto simp: obind_Reject prev_index_no_reject
             dest: coinbase_shape_reject hash_target_check_reject reward_signature_check_reject
                   fetch_dct_reject find_donation_reject community_donation_reject
                   dct_checks_reject dwarf_count_check_reject
             split: if_splits)
qed

text \<open>
  C9. When the block index has no entry for \<^verbatim>\<open>hashPrevBlock\<close>, \<^verbatim>\<open>CheckHiveProof\<close>
  faults at \<^verbatim>\<open>pindexPrev->nHeight\<close>, before the null test; and no input at all reaches
  the branch of that test, which returns false for a missing previous block index.
\<close>

theorem CheckHiveProof_prev_index_fault:
  "(mapBlockIndex E (hdr_hashPrevBlock pblock) = [] \<longrightarrow>
      CheckHiveProof E pblock P = Fault NullDeref) \<and>
   CheckHiveProof E pblock P \<noteq> Reject NoPrevIndex"
proof
  show "mapBlockIndex E (hdr_hashPrevBlock pblock) = [] \<longrightarrow>
          CheckHiveProof E pblock P = Fault NullDeref"
    by (simp add: CheckHiveProof_def locate_dct_def prev_index_def)
  show "CheckHiveProof E pblock P \<noteq> Reject NoPrevIndex"
    by (rule CheckHiveProof_reject_not_NoPrevIndex)
qed

theorem CheckHiveProof_prev_index_fault_witness:
  "mapBlockIndex test_env (hdr_hashPrevBlock (test_block\<lparr>hdr_hashPrevBlock := 99\<rparr>)) = [] \<and>
   CheckHiveProof test_env (test_block\<lparr>hdr_hashPrevBlock := 99\<rparr>) test_params = Fault NullDeref"
  using CheckHiveProof_prev_index_fault[of test_env "test_block\<lparr>hdr_hashPrevBlock := 99\<rparr>" test_params]
  by (simp add: test_env_def)

lemma hive_work_pow_chain25:
  "GetNextHiveWorkRequired toy_SetCompact toy_GetCompact pow_chain25 test_params
     = Inr (toy_GetCompact (powLimitHive test_params))"
  by (simp add: GetNextHiveWorkRequired_def pow_chain25_def pow_blocks24_def blk_def
        IsHiveMined_def test_params_def)

lemma test_proof_script_length: "length test_proof_script = 144"
  by (simp add: test_proof_script_def)

lemma test_env_sel:
  "mapBlockIndex test_env = (\<lambda>h. if h = 24 then pow_chain25 else [])"
  "pcoinsTip test_env = Some test_utxo"
  "GetScriptForDestination test_env = (\<lambda>a. if a = ''community'' then cf_script else bcf_script)"
  "IsDCT test_env = (\<lambda>tx s. False)"
  "IsDCTScript test_env = (\<lambda>s bcf. if s = dct_script \<and> bcf = bcf_script then Some reward_script else None)"
  "IsCoinBase test_env = (\<lambda>tx. length (vin tx) = 1 \<and> prevout (hd (vin tx)) = None)"
  "ExtractDestination test_env = (\<lambda>s. if s = reward_script then Some (KeyID 1) else None)"
  "IsValidDestination test_env = (\<lambda>d. d \<noteq> CNoDestination)"
  "MinotaurHashArbitrary test_env = (\<lambda>s. 0)"
  "RecoverCompact test_env = (\<lambda>h sig. Some [3])"
  "GetID test_env = (\<lambda>k. 1)"
  "SetCompact test_env = toy_SetCompact"
  "GetCompact test_env = toy_GetCompact"
  "OP_RETURN test_env = 0x6a"
  "OP_DWARF test_env = 0xc1"
  "OP_TRUE test_env = 0x51"
  "uint256S test_env = (\<lambda>s. 1)"
  by (simp_all add: test_env_def)

lemma test_params_sel:
  "lastInitialDistributionHeight test_params = 10"
  "slowStartBlocks test_params = 5"
  "maxConsecutiveHiveBlocks test_params = 2"
  "dwarfCreationAddress test_params = ''dwarf''"
  "hiveCommunityAddress test_params = ''community''"
  "communityContribFactor test_params = 10"
  "dwarfGestationBlocks test_params = 12"
  "dwarfLifespanBlocks test_params = 1000"
  "dwarfCost test_params = 10000"
  "hiveNonceMarker test_params = 192"
  "powLimitHive test_params = 2 ^ 244 - 1"
  by (simp_all add: test_params_def)

lemma env_of_sel:
  "mapBlockIndex (env_of v d) = (\<lambda>h. if h = 24 then pow_chain25 else [])"
  "pcoinsTip (env_of v d) = Some (utxo_of v d)"
  "GetScriptForDestination (env_of v d) = (\<lambda>a. if a = ''community'' then cf_script else bcf_script)"
  "IsDCT (env_of v d) = (\<lambda>tx s. False)"
  "IsDCTScript (env_of v d) = (\<lambda>s bcf. if s = dct_script \<and> bcf = bcf_script then Some reward_script else None)"
  "IsCoinBase (env_of v d) = (\<lambda>tx. length (vin tx) = 1 \<and> prevout (hd (vin tx)) = None)"
  "ExtractDestination (env_of v d) = (\<lambda>s. if s = reward_script then Some (KeyID 1) else None)"
  "IsValidDestination (env_of v d) = (\<lambda>d. d \<noteq> CNoDestination)"
  "MinotaurHashArbitrary (env_of v d) = (\<lambda>s. 0)"
  "RecoverCompact (env_of v d) = (\<lambda>h sig. Some [3])"
  "GetID (env_of v d) = (\<lambda>k. 1)"
  "SetCompact (env_of v d) = toy_SetCompact"
  "GetCompact (env_of v d) = toy_GetCompact"
  "OP_RETURN (env_of v d) = 0x6a"
  "OP_DWARF (env_of v d) = 0xc1"
  "OP_TRUE (env_of v d) = 0x51"
  "uint256S (env_of v d) = (\<lambda>s. 1)"
  by (simp_all add: env_of_def test_env_def)

lemma prev_index_of:
  "prev_index (env_of v d) (block_of n c) = Pass (pow_chain25, 25)"
  by (simp add: prev_index_def env_of_sel block_of_def test_block_def pow_chain25_def
        pow_blocks24_def blk_def in_int32_def)

lemma hive_count_pow_chain25:
  "CheckHiveProof_hiveBlocksSincePow test_params pow_chain25 0 = Inr 0"
  by (simp add: pow_chain25_def pow_blocks24_def blk_def IsHiveMined_def test_params_sel)

lemma coinbase_shape_of:
  "coinbase_shape (env_of v d) test_params (block_of n c) pow_chain25 25 = Pass (coinbase_of n c)"
  by (simp add: coinbase_shape_def hive_count_pow_chain25 env_of_sel test_params_sel block_of_def
        test_block_def require_def of_sum_def coinbase_of_def proof_script_of_def)

lemma decode_of:
  "ReadLE32 (drop 3 (proof_script_of n c)) = ucast n"
  "ReadLE32 (drop 8 (proof_script_of n c)) = 10"
  "proof_script_of n c ! 12 = c"
  "take 64 (drop 14 (proof_script_of n c)) = replicate 64 0x61"
  by (simp_all add: ReadLE32_def proof_script_of_def)

lemma hash_target_of:
  "hash_target_check (env_of v d) test_params pow_chain25 txid n = Pass ()"
  by (simp add: hash_target_check_def env_of_sel hive_work_pow_chain25 of_sum_def require_def
        dwarf_hash_def test_params_sel toy_SetCompact_def toy_GetCompact_def)

lemma reward_of:
  "reward_signature_check (env_of v d) pow_chain25 (coinbase_of n c) sig = Pass (KeyID 1)"
  by (simp add: reward_signature_check_def env_of_sel coinbase_of_def)

lemma fetch_of:
  "fetch_dct (env_of v d) pow_chain25 txid 10 = Pass (v, dct_script, 10, None)"
  by (simp add: fetch_dct_def GetCoin_def env_of_sel utxo_of_def)

lemma locate_dct_of:
  "locate_dct (env_of v d) (block_of n c) test_params = Pass (context_of v n c)"
  unfolding locate_dct_def
  by (simp add: prev_index_of coinbase_shape_of decode_of hash_target_of reward_of fetch_of
        env_of_sel Let_def context_of_def
        coinbase_of_def[THEN arg_cong[where f = vout], simplified])

lemma find_donation_of:
  "find_donation (env_of v d) test_params pow_chain25 txid 10 None = Pass d"
  by (simp add: find_donation_def GetCoin_def env_of_sel utxo_of_def test_params_sel)

lemma dct_checks_of:
  "dct_checks (env_of v d) test_params 25 10 10 dct_script (KeyID 1) = Pass ()"
  by (simp add: dct_checks_def require_def env_of_sel test_params_sel
        dct_script_def bcf_script_def reward_script_def)

lemma context_of_sel:
  "hp_pindexPrev (context_of v n c) = pow_chain25"
  "hp_blockHeight (context_of v n c) = 25"
  "hp_dwarfNonce (context_of v n c) = ucast n"
  "hp_dctClaimedHeight (context_of v n c) = 10"
  "hp_communityContrib (context_of v n c) = (c = 0x51)"
  "hp_txidStr (context_of v n c) = replicate 64 0x61"
  "hp_rewardDestination (context_of v n c) = KeyID 1"
  "hp_dctValue (context_of v n c) = v"
  "hp_dctScriptPubKey (context_of v n c) = dct_script"
  "hp_dctFoundHeight (context_of v n c) = 10"
  "hp_dct (context_of v n c) = None"
  by (simp_all add: context_of_def)

text \<open>
  The whole validator on the test block: every check passes, as for scenario 5 of the
  specification; with the nonce equal to the dwarf count the proof is rejected, as for
  scenario 6.
\<close>

lemma CheckHiveProof_accepts_test_block:
  "CheckHiveProof (env_of 90000 10000) (block_of 5 0x51) test_params = Pass ()"
  by (simp add: CheckHiveProof_def locate_dct_of paid_value_def final_checks_def context_of_sel
        find_donation_of dct_checks_of community_donation_def dwarf_count_check_def
        dwarf_count_def test_params_sel in_int64_def cdiv_def)

lemma CheckHiveProof_rejects_nonce_at_count:
  "CheckHiveProof (env_of 90000 10000) (block_of 10 0x51) test_params = Reject NotEnoughDwarves"
  by (simp add: CheckHiveProof_def locate_dct_of paid_value_def final_checks_def context_of_sel
        find_donation_of dct_checks_of community_donation_def dwarf_count_check_def
        dwarf_count_def test_params_sel in_int64_def cdiv_def)


lemma paid_value_donation:
  assumes cc: "hp_communityContrib c"
    and d: "find_donation E P (hp_pindexPrev c) (hp_txidStr c) (hp_dctClaimedHeight c) (hp_dct c)
              = Pass donationAmount"
    and f: "0 < communityContribFactor P"
    and r: "in_int64 (hp_dctValue c + donationAmount)"
  shows "paid_value E P c =
           (if donationAmount = cdiv (hp_dctValue c + donationAmount) (communityContribFactor P)
            then Pass (hp_dctValue c + donationAmount) else Reject WrongDonation)"
  using cc d f r by (auto simp: paid_value_def community_donation_def Let_def)

lemma cdiv_accepts_exact:
  assumes f: "0 < f" and e: "d * (f - 1) = v"
  shows "d = cdiv (v + d) f"
proof -
  have "v + d = d * f"
    using e by (simp add: algebra_simps)
  then show ?thesis
    using f cdiv_mult_self[of f d] by simp
qed

lemma cdiv_accepts_iff:
  assumes f: "0 < f" and nn: "0 \<le> v + d"
  shows "(d = cdiv (v + d) f) = (d * (f - 1) \<le> v \<and> v < d * (f - 1) + f)"
proof -
  have "cdiv (v + d) f = (v + d) div f"
    using nn f by (rule cdiv_nonneg)
  then have "(d = cdiv (v + d) f) = (d = (v + d) div f)"
    by simp
  also have "\<dots> = (d * f \<le> v + d \<and> v + d < d * f + f)"
    using f by (rule div_eq_iff_bounds)
  also have "\<dots> = (d * (f - 1) \<le> v \<and> v < d * (f - 1) + f)"
    by (auto simp: algebra_simps)
  finally show ?thesis .
qed



text \<open>
  C1 (amended). For a proof whose \<open>communityContrib\<close> flag is set, a positive
  \<open>communityContribFactor\<close> and a sum within \<^verbatim>\<open>int64_t\<close>, \<open>CheckHiveProof\<close> accepts the
  donation exactly when \<open>donationAmount\<close> equals the truncating quotient
  \<open>(dctValue + donationAmount) / communityContribFactor\<close>, and the checks that follow
  (the dwarf count among them) then run on \<open>dctValue + donationAmount\<close>; otherwise the
  block is rejected for its donation. The equation
  \<open>donationAmount * (communityContribFactor - 1) = dctValue\<close> implies acceptance but is
  not equivalent to it: for a non-negative sum, acceptance is
  \<open>donationAmount * (factor - 1) \<le> dctValue < donationAmount * (factor - 1) + factor\<close>.
\<close>

theorem CheckHiveProof_community_donation:
  assumes l: "locate_dct E pblock P = Pass c"
    and cc: "hp_communityContrib c"
    and d: "find_donation E P (hp_pindexPrev c) (hp_txidStr c) (hp_dctClaimedHeight c) (hp_dct c)
              = Pass donationAmount"
    and f: "0 < communityContribFactor P"
    and r: "in_int64 (hp_dctValue c + donationAmount)"
  shows "CheckHiveProof E pblock P =
           (if donationAmount = cdiv (hp_dctValue c + donationAmount) (communityContribFactor P)
            then final_checks E P c (hp_dctValue c + donationAmount)
            else Reject WrongDonation) \<and>
         (donationAmount * (communityContribFactor P - 1) = hp_dctValue c \<longrightarrow>
            CheckHiveProof E pblock P = final_checks E P c (hp_dctValue c + donationAmount)) \<and>
         (0 \<le> hp_dctValue c + donationAmount \<longrightarrow>
            (donationAmount = cdiv (hp_dctValue c + donationAmount) (communityContribFactor P)) =
            (donationAmount * (communityContribFactor P - 1) \<le> hp_dctValue c \<and>
             hp_dctValue c < donationAmount * (communityContribFactor P - 1)
                               + communityContribFactor P))"
proof -
  let ?f = "communityContribFactor P"
  let ?v = "hp_dctValue c"
  have v: "CheckHiveProof E pblock P =
           (if donationAmount = cdiv (?v + donationAmount) ?f
            then final_checks E P c (?v + donationAmount) else Reject WrongDonation)"
    by (simp add: CheckHiveProof_def l paid_value_donation[OF cc d f r])
  have imp: "CheckHiveProof E pblock P = final_checks E P c (?v + donationAmount)"
    if e: "donationAmount * (?f - 1) = ?v"
    using cdiv_accepts_exact[OF f e] by (simp add: v)
  have iff: "(donationAmount = cdiv (?v + donationAmount) ?f) =
             (donationAmount * (?f - 1) \<le> ?v \<and> ?v < donationAmount * (?f - 1) + ?f)"
    if nn: "0 \<le> ?v + donationAmount"
    using f nn by (rule cdiv_accepts_iff)
  show ?thesis
    using v imp iff by blast
qed

theorem CheckHiveProof_community_donation_witness:
  "locate_dct (env_of 90000 10000) (block_of 5 0x51) test_params = Pass (context_of 90000 5 0x51) \<and>
   hp_communityContrib (context_of 90000 5 0x51) \<and>
   0 < communityContribFactor test_params \<and>
   CheckHiveProof (env_of 90000 10000) (block_of 5 0x51) test_params = Pass () \<and>
   CheckHiveProof (env_of 90000 5000) (block_of 5 0x51) test_params = Reject WrongDonation"
proof -
  have p: "0 < communityContribFactor test_params"
    by (simp add: test_params_sel)
  have cc: "hp_communityContrib (context_of v 5 0x51)" for v
    by (simp add: context_of_sel)
  have d: "find_donation (env_of v d) test_params (hp_pindexPrev (context_of v 5 0x51))
             (hp_txidStr (context_of v 5 0x51)) (hp_dctClaimedHeight (context_of v 5 0x51))
             (hp_dct (context_of v 5 0x51)) = Pass d" for v d
    by (simp add: context_of_sel find_donation_of)
  have r1: "in_int64 (hp_dctValue (context_of 90000 5 0x51) + 10000)"
    and r2: "in_int64 (hp_dctValue (context_of 90000 5 0x51) + 5000)"
    by (simp_all add: context_of_sel in_int64_def)
  have fc: "final_checks (env_of 90000 10000) test_params (context_of 90000 5 0x51) 100000 = Pass ()"
    by (simp add: final_checks_def context_of_sel dct_checks_of dwarf_count_check_def
          dwarf_count_def test_params_sel cdiv_def)
  show ?thesis
    using CheckHiveProof_community_donation[OF locate_dct_of cc d p r1]
          CheckHiveProof_community_donation[OF locate_dct_of cc d p r2]
    by (simp add: locate_dct_of cc p fc context_of_sel test_params_sel cdiv_def)
qed

text \<open>
  C1 as stated fails: a block whose DCT output holds 90001 and whose donation is 10000
  is accepted with factor 10, although \<open>10000 * (10 - 1)\<close> is not 90001.
\<close>

theorem CheckHiveProof_donation_counterexample:
  "CheckHiveProof (env_of 90001 10000) (block_of 5 0x51) test_params = Pass () \<and>
   locate_dct (env_of 90001 10000) (block_of 5 0x51) test_params = Pass (context_of 90001 5 0x51) \<and>
   hp_communityContrib (context_of 90001 5 0x51) \<and>
   hp_dctValue (context_of 90001 5 0x51) = 90001 \<and>
   find_donation (env_of 90001 10000) test_params pow_chain25 (replicate 64 0x61) 10 None
     = Pass 10000 \<and>
   10000 * (communityContribFactor test_params - 1) \<noteq> (90001 :: int)"
  by (simp add: CheckHiveProof_def locate_dct_of paid_value_def final_checks_def context_of_sel
        find_donation_of dct_checks_of community_donation_def dwarf_count_check_def
        dwarf_count_def test_params_sel in_int64_def cdiv_def)




text \<open>
  C10. The two counts of Hive blocks since the last PoW block differ on a chain whose
  tip is Hive, Pop, Hive, PoW: the miner's pre-check walks over the Pop block and counts 2,
  the validator stops at the Pop block and counts 1.
\<close>

theorem hive_count_divergence:
  "BusyDwarves_hiveBlocksSincePow test_params [blk 4 192, blk 3 208, blk 2 192, blk 1 0, blk 0 0] 0 = Inr 2 \<and>
   CheckHiveProof_hiveBlocksSincePow test_params [blk 4 192, blk 3 208, blk 2 192, blk 1 0, blk 0 0] 0 = Inr 1"
  by (simp add: test_params_def blk_def IsHiveMined_def IsPopMined_def)

section \<open>Properties of the miners\<close>

lemma IncrementExtraNonce_Inr:
  assumes "IncrementExtraNonce E pblock pindexPrev n st = Inr (pblock', n', st')"
  shows "n' = (if st \<noteq> hdr_hashPrevBlock pblock then 1 else n + 1)"
    and "st' = hdr_hashPrevBlock pblock"
    and "hdr_hashPrevBlock pblock' = hdr_hashPrevBlock pblock"
    and "\<exists>tx0 txs in0 ins. vtx pblock = tx0 # txs \<and> vin tx0 = in0 # ins \<and>
           vtx pblock' = tx0\<lparr>vin := in0\<lparr>scriptSig := coinbase_scriptSig E pindexPrev n'\<rparr> # ins\<rparr> # txs"
    and "length (coinbase_scriptSig E pindexPrev n') \<le> 100"
    and "hdr_hashMerkleRoot pblock' = BlockMerkleRoot E (pblock'\<lparr>hdr_hashMerkleRoot := hdr_hashMerkleRoot pblock\<rparr>)"
  using assms
  by (auto simp: IncrementExtraNonce_def Let_def coinbase_scriptSig_def
           split: list.splits if_splits)

lemma test_IncrementExtraNonce_changed:
  "IncrementExtraNonce test_script_env test_block pow_chain25 5 77 = Inr (test_block_nonce 1, 1, 24)"
  by (simp add: IncrementExtraNonce_def test_script_env_def test_block_def test_block_nonce_def
        test_coinbase_def pow_chain25_def pow_blocks24_def blk_def in_int32_def)

lemma test_IncrementExtraNonce_same:
  "IncrementExtraNonce test_script_env test_block pow_chain25 1 24 = Inr (test_block_nonce 2, 2, 24)"
  by (simp add: IncrementExtraNonce_def test_script_env_def test_block_def test_block_nonce_def
        test_coinbase_def pow_chain25_def pow_blocks24_def blk_def in_int32_def)

text \<open>
  C6 (amended). Of two successive calls that return, the second leaves the counter at 1
  when the block's \<^verbatim>\<open>hashPrevBlock\<close> differs from that of the first call (the counter is
  reset to 0 and then incremented) and adds 1 to it otherwise; it writes the coinbase
  scriptSig \<open>height || extraNonce || COINBASE_FLAGS\<close>, of at most 100 bytes (a longer one
  fails the assertion), keeps the other transactions, and sets the merkle root to that
  of the block with the new coinbase.
\<close>

theorem IncrementExtraNonce_successive:
  assumes c1: "IncrementExtraNonce E pblock1 pindexPrev1 n0 st0 = Inr (pblock1', n1, st1)"
    and c2: "IncrementExtraNonce E pblock2 pindexPrev2 n1 st1 = Inr (pblock2', n2, st2)"
  shows "n2 = (if hdr_hashPrevBlock pblock2 \<noteq> hdr_hashPrevBlock pblock1 then 1 else n1 + 1) \<and>
         scriptSig (hd (vin (hd (vtx pblock2')))) = coinbase_scriptSig E pindexPrev2 n2 \<and>
         length (scriptSig (hd (vin (hd (vtx pblock2'))))) \<le> 100 \<and>
         tl (vtx pblock2') = tl (vtx pblock2) \<and>
         hdr_hashMerkleRoot pblock2' =
           BlockMerkleRoot E (pblock2'\<lparr>hdr_hashMerkleRoot := hdr_hashMerkleRoot pblock2\<rparr>)"
proof -
  have st1: "st1 = hdr_hashPrevBlock pblock1"
    using IncrementExtraNonce_Inr(2)[OF c1] .
  have n2: "n2 = (if st1 \<noteq> hdr_hashPrevBlock pblock2 then 1 else n1 + 1)"
    using IncrementExtraNonce_Inr(1)[OF c2] .
  from IncrementExtraNonce_Inr(4)[OF c2] obtain tx0 txs in0 ins where
    v: "vtx pblock2 = tx0 # txs" "vin tx0 = in0 # ins"
       "vtx pblock2' = tx0\<lparr>vin := in0\<lparr>scriptSig := coinbase_scriptSig E pindexPrev2 n2\<rparr> # ins\<rparr> # txs"
    by blast
  show ?thesis
    using n2 st1 v IncrementExtraNonce_Inr(5)[OF c2] IncrementExtraNonce_Inr(6)[OF c2]
    by auto
qed

theorem IncrementExtraNonce_successive_witness:
  "IncrementExtraNonce test_script_env test_block pow_chain25 5 77 = Inr (test_block_nonce 1, 1, 24) \<and>
   IncrementExtraNonce test_script_env test_block pow_chain25 1 24 = Inr (test_block_nonce 2, 2, 24) \<and>
   (2 :: uint32) = (if hdr_hashPrevBlock test_block \<noteq> hdr_hashPrevBlock test_block then 1 else 1 + 1) \<and>
   scriptSig (hd (vin (hd (vtx (test_block_nonce 2))))) = coinbase_scriptSig test_script_env pow_chain25 2"
  using IncrementExtraNonce_successive[OF test_IncrementExtraNonce_changed test_IncrementExtraNonce_same]
        test_IncrementExtraNonce_changed test_IncrementExtraNonce_same
  by simp

text \<open>
  C6 as stated fails: after a call on a block whose \<^verbatim>\<open>hashPrevBlock\<close> (24) differs from
  the one seen before (77), the counter is 1, not 0.
\<close>

theorem IncrementExtraNonce_counterexample:
  "IncrementExtraNonce test_script_env test_block pow_chain25 5 77 = Inr (test_block_nonce 1, 1, 24) \<and>
   hdr_hashPrevBlock test_block \<noteq> 77 \<and> (1 :: uint32) \<noteq> 0"
  by (simp add: test_IncrementExtraNonce_changed) (simp add: test_block_def)




section \<open>Properties of the block assembler\<close>

lemma forget_failed_nCF [simp]:
  "nConsecutiveFailed (forget_failed M u it L) = nConsecutiveFailed L"
  by (simp add: forget_failed_def)

lemma select_package_nCF:
  "select_package M L = Inr (it, u, L1) \<Longrightarrow> nConsecutiveFailed L1 = nConsecutiveFailed L"
  by (auto simp: select_package_def split: list.splits if_splits)

lemma admit_package_nCF [simp]:
  "nConsecutiveFailed (snd (admit_package M anc s)) = 0"
  by (simp add: admit_package_def Let_def)

lemma admit_package_limits [simp]:
  "nBlockMaxWeight (fst (admit_package M anc s)) = nBlockMaxWeight (fst s)"
proof -
  have "nBlockMaxWeight (fold (\<lambda>it A. AddToBlock M A it) xs A) = nBlockMaxWeight A" for xs A
    by (induction xs arbitrary: A) (simp_all add: AddToBlock_def)
  then show ?thesis by (simp add: admit_package_def Let_def)
qed

lemma addPackageTxs_step_counter:
  assumes st: "addPackageTxs_step M s = Inr (r, s')"
  shows "(r = GaveUp \<longrightarrow>
            nConsecutiveFailed (snd s') = nConsecutiveFailed (snd s) + 1 \<and>
            nConsecutiveFailed (snd s') > 1000 \<and>
            nBlockWeight (fst s) > nBlockMaxWeight (fst s) - 4000 \<and> fst s' = fst s) \<and>
         (r = PackageFailed \<longrightarrow>
            nConsecutiveFailed (snd s') = nConsecutiveFailed (snd s) + 1 \<and>
            \<not> (nConsecutiveFailed (snd s') > 1000 \<and>
               nBlockWeight (fst s) > nBlockMaxWeight (fst s) - 4000) \<and> fst s' = fst s) \<and>
         (r = Admitted \<longrightarrow> nConsecutiveFailed (snd s') = 0) \<and>
         (r = Skipped \<or> r = TransactionsFailed \<or> r = FeeTooLow \<longrightarrow>
            nConsecutiveFailed (snd s') = nConsecutiveFailed (snd s) \<and> fst s' = fst s)"
proof (cases "mi (snd s) \<noteq> [] \<and>
              SkipMapTxEntry (fst s) (hd (mi (snd s))) (mapModifiedTx (snd s)) (failedTx (snd s))")
  case True
  then show ?thesis
    using st by (auto simp: addPackageTxs_step_def Let_def)
next
  case False
  then obtain it u L1 where sel: "select_package M (snd s) = Inr (it, u, L1)"
    using st by (cases "select_package M (snd s)") (auto simp: addPackageTxs_step_def Let_def)
  note n = select_package_nCF[OF sel]
  show ?thesis
    using st False n
    by (auto simp: addPackageTxs_step_def Let_def sel MAX_CONSECUTIVE_FAILURES_def
             split: if_splits)
qed





text \<open>An admitted package, for comparison: with room in the block the counter is reset.\<close>

lemma test_step_admitted:
  "\<exists>s'. addPackageTxs_step (test_mempool [0, 1]) (test_assembler 4000, test_loop [0, 1] 7) =
           Inr (Admitted, s') \<and> nConsecutiveFailed (snd s') = 0 \<and>
           nBlockWeight (fst s') = 6000 \<and> inBlock (fst s') = [0]"
  by (simp add: addPackageTxs_step_def select_package_def SkipMapTxEntry_def TestPackage_def
        TestPackageTransactions_def onlyUnconfirmed_def admit_package_def SortForBlock_def
        AddToBlock_def UpdatePackagesForAdded_def update_descendant_def
        test_mempool_def test_assembler_def test_loop_def test_entry_def)

lemma step_counter:
  assumes "addPackageTxs_step M s = Inr (r, s')"
  shows "nConsecutiveFailed (snd s') = failures_after [r] (nConsecutiveFailed (snd s))"
proof -
  have sel: "nConsecutiveFailed L1 = nConsecutiveFailed (snd s)"
    if "select_package M (snd s) = Inr (it, u, L1)" for it u L1
    using that by (rule select_package_nCF)
  show ?thesis
    using assms sel
    by (cases r)
       (auto simp: addPackageTxs_step_def Let_def split: if_splits sum.splits prod.splits)
qed

lemma loop_trace_counter:
  "loop_trace M n s = Inr (rs, s') \<Longrightarrow>
     nConsecutiveFailed (snd s') = failures_after rs (nConsecutiveFailed (snd s))"
proof (induction n arbitrary: s rs)
  case 0
  then show ?case by simp
next
  case (Suc n)
  show ?case
  proof (cases "mi (snd s) = [] \<and> mapModifiedTx (snd s) = []")
    case True
    with Suc.prems show ?thesis by simp
  next
    case False
    from Suc.prems False obtain r s1 where st: "addPackageTxs_step M s = Inr (r, s1)"
      by (cases "addPackageTxs_step M s") auto
    note c = step_counter[OF st]
    show ?thesis
    proof (cases "continues r")
      case True
      with Suc.prems False st obtain rs' where
        tr: "loop_trace M n s1 = Inr (rs', s')" and rs: "rs = r # rs'"
        by (cases "loop_trace M n s1") auto
      from Suc.IH[OF tr] c show ?thesis by (simp add: rs)
    next
      case stop: False
      with Suc.prems False st have "rs = [r]" "s' = s1" by auto
      with c show ?thesis by simp
    qed
  qed
qed

text \<open>
  In a run of the loop that starts with the counter at zero, \<^verbatim>\<open>break\<close> is only reached
  with more than 1000 failures of \<^verbatim>\<open>TestPackage\<close> since the last admitted package.
\<close>

lemma loop_trace_gave_up:
  assumes tr: "loop_trace M n s = Inr (rs, s')"
    and g: "GaveUp \<in> set rs"
  shows "failures_after rs (nConsecutiveFailed (snd s)) > 1000"
  using tr g
proof (induction n arbitrary: s rs)
  case 0
  then show ?case by simp
next
  case (Suc n)
  from Suc.prems have ne: "\<not> (mi (snd s) = [] \<and> mapModifiedTx (snd s) = [])"
    by (auto split: if_splits)
  from Suc.prems ne obtain r s1 where st: "addPackageTxs_step M s = Inr (r, s1)"
    by (cases "addPackageTxs_step M s") auto
  note c = step_counter[OF st]
  show ?case
  proof (cases "continues r")
    case True
    with Suc.prems ne st obtain rs' where
      tr: "loop_trace M n s1 = Inr (rs', s')" and rs: "rs = r # rs'"
      by (cases "loop_trace M n s1") auto
    from True have "r \<noteq> GaveUp" by (simp add: continues_def)
    with Suc.prems(2) rs have "GaveUp \<in> set rs'" by simp
    from Suc.IH[OF tr this] c show ?thesis by (simp add: rs)
  next
    case False
    with Suc.prems ne st have rs: "rs = [r]" "s' = s1" by auto
    with Suc.prems(2) have "r = GaveUp" by simp
    with addPackageTxs_step_counter[OF st] c rs show ?thesis by simp
  qed
qed

lemma test_mempool_index [simp]: "mapTx_ancestor_score (test_mempool index) = index"
  by (simp add: test_mempool_def)

lemma pow_chain25_nonempty [simp]: "pow_chain25 \<noteq> []"
  by (simp add: pow_chain25_def)

lemma addPackageTxs_empty_mempool:
  "addPackageTxs (test_mempool []) A =
     Some (Inr (A, \<lparr>mi = [], mapModifiedTx = [],
                     failedTx = [], nConsecutiveFailed = 0, nPackagesSelected = 0,
                     nDescendantsUpdated = 0\<rparr>))"
  if "inBlock A = []"
  unfolding addPackageTxs_def
  by (subst addPackageTxs_loop.simps) (simp add: that UpdatePackagesForAdded_def)

lemma pow_work_pow_chain25:
  "GetNextWorkRequired toy_SetCompact toy_GetCompact pow_chain25 pblock test_params
     = Inr test_pow_bits"
  unfolding test_pow_bits_def
  proof (rule GetNextWorkRequired_value[where hs = "[]" and rest = "[]"])
    show "pow_chain25 = [] @ pow_blocks24 @ [blk 0 0]"
      by (simp add: pow_chain25_def)
    show "\<forall>b\<in>set []. IsHiveMined b test_params" by simp
    show "\<not> IsHiveMined (hd pow_blocks24) test_params"
      by (simp add: pow_blocks24_def IsHiveMined_def blk_def test_params_def)
    show "\<not> IsHiveMined (last pow_blocks24) test_params"
      by (simp add: pow_blocks24_def IsHiveMined_def blk_def test_params_def)
    show "length (filter (\<lambda>b. \<not> IsHiveMined b test_params) pow_blocks24) = 24"
      by (simp add: pow_blocks24_def IsHiveMined_def blk_def test_params_def)
    show "lastInitialDistributionHeight test_params \<le> nHeight (hd pow_chain25)"
      by (simp add: pow_chain25_def pow_blocks24_def blk_def test_params_def)
    show "\<not> (fPowAllowMinDifficultyBlocks test_params \<and>
            GetBlockTime (hd pow_chain25) + nPowTargetSpacing test_params * 10
              < uint (hdr_nTime pblock))"
      by (simp add: test_params_def)
    show "0 < nPowTargetSpacing test_params" by (simp add: test_params_def)
    show "72 * nPowTargetSpacing test_params < 2 ^ 32" by (simp add: test_params_def)
  qed

lemma test_assemble_hive:
  "\<exists>t. assemble_template test_env test_script_env (test_mempool []) test_node test_params
          (test_assembler 0) reward_script (Some test_proof_script) None = Some (Inr t)"
  by (simp add: assemble_template_def test_node_def
        addPackageTxs_empty_mempool prepare_assembler_def resetBlock_def new_coinbase_def
        new_nBits_def test_env_sel hive_work_pow_chain25 UpdateTime_def Let_def)

lemma test_assemble_pop:
  "\<exists>t. assemble_template test_env test_script_env (test_mempool []) test_node test_params
          (test_assembler 0) reward_script None (Some test_proof_script) = Some (Inr t)"
  by (simp add: assemble_template_def test_node_def
        addPackageTxs_empty_mempool prepare_assembler_def resetBlock_def new_coinbase_def
        pop_coinbase_def new_nBits_def test_env_sel UpdateTime_def Let_def
        test_proof_script_def)

lemma test_validity_fails: "\<not> TestBlockValidity test_node b p"
  by (simp add: test_node_def)

text \<open>
  C2 (amended). When \<^verbatim>\<open>TestBlockValidity\<close> fails on the assembled block,
  \<^verbatim>\<open>CreateNewBlock\<close> raises the runtime error whenever no Pop proof script was passed, in
  PoW mode and in Hive mode alike, and returns the null template, without raising,
  exactly when a Pop proof script was passed.
\<close>

theorem CreateNewBlock_validity_failure:
  assumes a: "assemble_template E S M N P A scriptPubKeyIn hiveProofScript popProofScript
                = Some (Inr t)"
    and v: "\<not> TestBlockValidity N (block t) (chainActive_Tip N)"
  shows "(popProofScript = None \<longrightarrow>
            CreateNewBlock E S M N P A scriptPubKeyIn hiveProofScript popProofScript
              = Some (Inl runtime_error)) \<and>
         (popProofScript \<noteq> None \<longrightarrow>
            CreateNewBlock E S M N P A scriptPubKeyIn hiveProofScript popProofScript
              = Some (Inr None))"
  using a v by (auto simp: CreateNewBlock_def)

theorem CreateNewBlock_validity_failure_witness:
  "CreateNewBlock test_env test_script_env (test_mempool []) test_node test_params
     (test_assembler 0) reward_script None (Some test_proof_script) = Some (Inr None) \<and>
   CreateNewBlock test_env test_script_env (test_mempool []) test_node test_params
     (test_assembler 0) reward_script None None = Some (Inl runtime_error)"
proof -
  from test_assemble_pop obtain t where
    t: "assemble_template test_env test_script_env (test_mempool []) test_node test_params
          (test_assembler 0) reward_script None (Some test_proof_script) = Some (Inr t)"
    by blast
  have pow: "\<exists>t. assemble_template test_env test_script_env (test_mempool []) test_node test_params
          (test_assembler 0) reward_script None None = Some (Inr t)"
    by (simp add: assemble_template_def test_node_def
        addPackageTxs_empty_mempool prepare_assembler_def resetBlock_def new_coinbase_def
        new_nBits_def test_env_sel UpdateTime_def Let_def pow_work_pow_chain25)
  then obtain u where
    u: "assemble_template test_env test_script_env (test_mempool []) test_node test_params
          (test_assembler 0) reward_script None None = Some (Inr u)"
    by blast
  show ?thesis
    using CreateNewBlock_validity_failure[OF t test_validity_fails]
          CreateNewBlock_validity_failure[OF u test_validity_fails]
    by simp
qed

text \<open>
  C2 as stated fails: in Hive mode (a Hive proof script and no Pop proof script) a failed
  \<^verbatim>\<open>TestBlockValidity\<close> raises the runtime error; the result is not the null template.
\<close>

theorem CreateNewBlock_hive_counterexample:
  "CreateNewBlock test_env test_script_env (test_mempool []) test_node test_params
     (test_assembler 0) reward_script (Some test_proof_script) None = Some (Inl runtime_error) \<and>
   CreateNewBlock test_env test_script_env (test_mempool []) test_node test_params
     (test_assembler 0) reward_script (Some test_proof_script) None \<noteq> Some (Inr None)"
proof -
  from test_assemble_hive obtain t where
    t: "assemble_template test_env test_script_env (test_mempool []) test_node test_params
          (test_assembler 0) reward_script (Some test_proof_script) None = Some (Inr t)"
    by blast
  show ?thesis
    by (simp add: CreateNewBlock_def t test_validity_fails)
qed

end
